theory Spec2Isabelle
  imports Complex_Main
begin


section \<open>Sample values\<close>

text \<open>
  Samples are numpy floating-point numbers. The model keeps the cases the code depends
  on: not-a-number, the two infinities and the finite values. Finite values are taken
  without rounding, without overflow to an infinity and without a signed zero, so a
  statement about an arithmetic result says which operation is applied to which operands,
  not the digits numpy computes.
\<close>

datatype fl = NaN | PInf | NInf | Fin real

text \<open>The comparison \<^verbatim>\<open>==\<close> of two floats: not-a-number equals nothing.\<close>

fun feq :: "fl \<Rightarrow> fl \<Rightarrow> bool" where
  "feq NaN y = False"
| "feq x NaN = False"
| "feq x y = (x = y)"

fun fneg :: "fl \<Rightarrow> fl" where
  "fneg NaN = NaN"
| "fneg PInf = NInf"
| "fneg NInf = PInf"
| "fneg (Fin x) = Fin (- x)"

fun fadd :: "fl \<Rightarrow> fl \<Rightarrow> fl" where
  "fadd NaN y = NaN"
| "fadd x NaN = NaN"
| "fadd (Fin x) (Fin y) = Fin (x + y)"
| "fadd PInf NInf = NaN"
| "fadd NInf PInf = NaN"
| "fadd PInf y = PInf"
| "fadd NInf y = NInf"
| "fadd (Fin x) y = y"

fun fmul :: "fl \<Rightarrow> fl \<Rightarrow> fl" where
  "fmul NaN y = NaN"
| "fmul x NaN = NaN"
| "fmul (Fin x) (Fin y) = Fin (x * y)"
| "fmul (Fin x) y = (if x = 0 then NaN else if 0 < x then y else fneg y)"
| "fmul x (Fin y) = (if y = 0 then NaN else if 0 < y then x else fneg x)"
| "fmul PInf y = y"
| "fmul NInf y = fneg y"

fun fdiv :: "fl \<Rightarrow> fl \<Rightarrow> fl" where
  "fdiv NaN y = NaN"
| "fdiv x NaN = NaN"
| "fdiv (Fin x) (Fin y) =
     (if y = 0 then (if x = 0 then NaN else if 0 < x then PInf else NInf)
      else Fin (x / y))"
| "fdiv (Fin x) y = Fin 0"
| "fdiv x (Fin y) = (if 0 \<le> y then x else fneg x)"
| "fdiv x y = NaN"

fun fsqrt :: "fl \<Rightarrow> fl" where
  "fsqrt NaN = NaN"
| "fsqrt PInf = PInf"
| "fsqrt NInf = NaN"
| "fsqrt (Fin x) = (if x < 0 then NaN else Fin (sqrt x))"

section \<open>Arrays\<close>

text \<open>A numpy array: its shape and its elements in row-major order.\<close>

record 'a ndarray =
  shape :: "nat list"
  elems :: "'a list"

definition ndim :: "'a ndarray \<Rightarrow> nat" where
  "ndim a = length (shape a)"

text \<open>\<^verbatim>\<open>a == v\<close>: the boolean array of the elementwise comparison.\<close>

definition eq_scalar :: "fl ndarray \<Rightarrow> fl \<Rightarrow> bool ndarray" where
  "eq_scalar a v = \<lparr>shape = shape a, elems = map (\<lambda>x. feq x v) (elems a)\<rparr>"

text \<open>\<^verbatim>\<open>a[cond] = v\<close>: the array with \<open>v\<close> written where \<open>cond\<close> holds.\<close>

definition set_where :: "fl ndarray \<Rightarrow> bool ndarray \<Rightarrow> fl \<Rightarrow> fl ndarray" where
  "set_where a cond v =
     a\<lparr>elems := map2 (\<lambda>c x. if c then v else x) (elems cond) (elems a)\<rparr>"

section \<open>Errors, header values, units\<close>

datatype error =
    ValueError string
  | KeyError string
  | IndexError
  | TypeError
  | AttributeError
  | OverflowError
  | FileNotFoundError string
  | UnboundLocalError string
  | UnitConversionError
  | InvalidReference

text \<open>A value of a FITS header card.\<close>

datatype hval = HStr string | HInt int | HFloat real

text \<open>A value of a metadata dictionary: \<^verbatim>\<open>None\<close>, a header value or a parsed time
  (seconds on the time line of \<^verbatim>\<open>parse_time\<close>).\<close>

datatype pyval = PNone | PVal hval | PTime real

type_synonym header = "string \<rightharpoonup> hval"
type_synonym meta_dict = "string \<rightharpoonup> pyval"

text \<open>
  A physical unit: its name, how many photons one of it is worth, and the power of
  the second it carries (\<open>-1\<close> for a unit per second).
\<close>

record punit =
  unit_name :: string
  unit_scale :: real
  time_pow :: int

text \<open>The constants of \<^verbatim>\<open>iris_tools\<close> the reader uses: a parameter of the model.\<close>

record calibration =
  DN_UNIT_SJI :: punit
  DN_UNIT_SJI_UNSCALED :: punit
  READOUT_NOISE_SJI :: "real \<times> punit"

section \<open>Cubes and the object store\<close>

datatype wcs = WCS header

text \<open>
  The unit of a quantity: its name and, for a unit of time, how many seconds one of it is
  (\<open>60\<close> for a minute); \<open>None\<close> for a unit that is not a time.
\<close>

record qunit =
  qunit_name :: string
  seconds_per_unit :: "real option"

text \<open>The value of an extra coordinate: a scalar, a plain array, an array with a unit,
  or an array of times.\<close>

datatype coord_val =
    CScalar fl
  | CVector "fl list"
  | CQuantity "fl list" qunit
  | CTimes "real list"

text \<open>
  An \<^verbatim>\<open>IRISMapCube\<close>. The sample array and the uncertainty array are references into
  the store of arrays; the extra coordinates are kept in the constructor's input format
  (name, data axis or \<^verbatim>\<open>None\<close>, value).
\<close>

record cube =
  data :: nat
  wcs :: wcs
  uncertainty :: "nat option"
  unit :: punit
  meta :: meta_dict
  mask_array :: "bool ndarray option"
  extra_coords :: "(string \<times> nat option \<times> coord_val) list"
  scaled :: "bool option"

text \<open>
  The state of the interpreter the code acts on: the array objects and the cube objects
  (a reference is an index), and the FITS files that are open.
\<close>

record world =
  arrays :: "fl ndarray list"
  cubes :: "cube list"
  open_files :: "string list"

type_synonym 'a io = "world \<Rightarrow> (error + 'a) \<times> world"

definition returnS :: "'a \<Rightarrow> 'a io" where
  "returnS x = (\<lambda>w. (Inr x, w))"

definition raiseS :: "error \<Rightarrow> 'a io" where
  "raiseS e = (\<lambda>w. (Inl e, w))"

definition liftE :: "error + 'a \<Rightarrow> 'a io" where
  "liftE r = (\<lambda>w. (r, w))"

definition bindS :: "'a io \<Rightarrow> ('a \<Rightarrow> 'b io) \<Rightarrow> 'b io" where
  "bindS m f = (\<lambda>w. case m w of (Inl e, w') \<Rightarrow> (Inl e, w') | (Inr x, w') \<Rightarrow> f x w')"

definition bindE :: "error + 'a \<Rightarrow> ('a \<Rightarrow> error + 'b) \<Rightarrow> error + 'b" where
  "bindE m f = (case m of Inl e \<Rightarrow> Inl e | Inr x \<Rightarrow> f x)"

fun mapE :: "('a \<Rightarrow> error + 'b) \<Rightarrow> 'a list \<Rightarrow> error + 'b list" where
  "mapE f [] = Inr []"
| "mapE f (x # xs) = bindE (f x) (\<lambda>y. bindE (mapE f xs) (\<lambda>ys. Inr (y # ys)))"

definition new_array :: "fl ndarray \<Rightarrow> nat io" where
  "new_array a = (\<lambda>w. (Inr (length (arrays w)), w\<lparr>arrays := arrays w @ [a]\<rparr>))"

definition get_array :: "nat \<Rightarrow> fl ndarray io" where
  "get_array r =
     (\<lambda>w. if r < length (arrays w) then (Inr (arrays w ! r), w) else (Inl InvalidReference, w))"

definition put_array :: "nat \<Rightarrow> fl ndarray \<Rightarrow> unit io" where
  "put_array r a =
     (\<lambda>w. if r < length (arrays w) then (Inr (), w\<lparr>arrays := (arrays w)[r := a]\<rparr>)
          else (Inl InvalidReference, w))"

definition get_cube :: "nat \<Rightarrow> cube io" where
  "get_cube r =
     (\<lambda>w. if r < length (cubes w) then (Inr (cubes w ! r), w) else (Inl InvalidReference, w))"

text \<open>\<^verbatim>\<open>len(value)\<close> of the value of an extra coordinate; a float has none.\<close>

fun coord_len :: "coord_val \<Rightarrow> nat option" where
  "coord_len (CScalar x) = None"
| "coord_len (CVector xs) = Some (length xs)"
| "coord_len (CQuantity xs q) = Some (length xs)"
| "coord_len (CTimes ts) = Some (length ts)"

text \<open>
  The check the constructor of the base class \<^verbatim>\<open>NDCube\<close> makes on every extra
  coordinate that names a data axis: the coordinate is as long as that axis of the data.
\<close>

definition check_extra_coord :: "nat list \<Rightarrow> string \<times> nat option \<times> coord_val \<Rightarrow> error + unit" where
  "check_extra_coord shp coord =
     (case fst (snd coord) of
        None \<Rightarrow> Inr ()
      | Some ax \<Rightarrow>
          if length shp \<le> ax then Inl IndexError
          else (case coord_len (snd (snd coord)) of
                  None \<Rightarrow> Inl TypeError
                | Some n \<Rightarrow>
                    if n \<noteq> shp ! ax then
                      Inl (ValueError ''extra coord must have same length as data axis to which it is assigned'')
                    else Inr ()))"

text \<open>
  \<^verbatim>\<open>IRISMapCube(data, wcs, uncertainty=..., unit=..., meta=..., mask=...,
  extra_coords=..., scaled=...)\<close>: the extra coordinates are checked against the shape
  of the data; then a new cube object holds the arguments.
\<close>

definition IRISMapCube ::
  "nat \<Rightarrow> wcs \<Rightarrow> nat option \<Rightarrow> punit \<Rightarrow> meta_dict \<Rightarrow> bool ndarray option \<Rightarrow>
   (string \<times> nat option \<times> coord_val) list \<Rightarrow> bool option \<Rightarrow> nat io" where
  "IRISMapCube d wc unc un m msk ec sc =
     bindS (get_array d) (\<lambda>a.
     bindS (liftE (mapE (check_extra_coord (shape a)) ec)) (\<lambda>checked.
     (\<lambda>w. (Inr (length (cubes w)),
            w\<lparr>cubes := cubes w @
               [\<lparr>data = d, wcs = wc, uncertainty = unc, unit = un, meta = m,
                 mask_array = msk, extra_coords = ec, scaled = sc\<rparr>]\<rparr>))))"

definition lookup_cube :: "world \<Rightarrow> nat \<Rightarrow> error + cube" where
  "lookup_cube w r = (if r < length (cubes w) then Inr (cubes w ! r) else Inl InvalidReference)"

section \<open>Broadcasting\<close>

text \<open>
  numpy's rule for an elementwise operation on two arrays: the shorter shape is padded
  with leading ones, then on every axis the two lengths are equal or one of them is 1,
  and the array of length 1 is repeated along that axis.
\<close>

definition pad_shape :: "nat \<Rightarrow> nat list \<Rightarrow> nat list" where
  "pad_shape n s = replicate (n - length s) 1 @ s"

fun broadcast_dims :: "nat list \<Rightarrow> nat list \<Rightarrow> nat list option" where
  "broadcast_dims [] [] = Some []"
| "broadcast_dims (d # ds) (e # es) =
     (if d = e \<or> e = 1 then map_option ((#) d) (broadcast_dims ds es)
      else if d = 1 then map_option ((#) e) (broadcast_dims ds es)
      else None)"
| "broadcast_dims ds es = None"

definition chunk :: "nat \<Rightarrow> nat \<Rightarrow> 'a list \<Rightarrow> 'a list" where
  "chunk n i xs = take n (drop (i * n) xs)"

fun broadcast_to :: "nat list \<Rightarrow> nat list \<Rightarrow> 'a list \<Rightarrow> 'a list" where
  "broadcast_to (d # ds) (r # rs) xs =
     concat (map (\<lambda>i. broadcast_to ds rs (chunk (prod_list ds) (if d = 1 then 0 else i) xs))
               [0..<r])"
| "broadcast_to ds rs xs = xs"

definition broadcast_op ::
  "(fl \<Rightarrow> fl \<Rightarrow> fl) \<Rightarrow> fl ndarray \<Rightarrow> fl ndarray \<Rightarrow> error + fl ndarray" where
  "broadcast_op f a b =
     (let n = max (ndim a) (ndim b);
          sa = pad_shape n (shape a);
          sb = pad_shape n (shape b)
      in case broadcast_dims sa sb of
           None \<Rightarrow> Inl (ValueError ''operands could not be broadcast together'')
         | Some r \<Rightarrow>
             Inr \<lparr>shape = r,
                  elems = map2 f (broadcast_to sa r (elems a)) (broadcast_to sb r (elems b))\<rparr>)"

section \<open>Exposure time correction\<close>

fun mapS :: "('a \<Rightarrow> 'b io) \<Rightarrow> 'a list \<Rightarrow> 'b list io" where
  "mapS f [] = returnS []"
| "mapS f (x # xs) = bindS (f x) (\<lambda>y. bindS (mapS f xs) (\<lambda>ys. returnS (y # ys)))"

definition carries_inverse_time :: "punit \<Rightarrow> bool" where
  "carries_inverse_time un = (time_pow un < 0)"

text \<open>
  Modelled from the spec: \<^verbatim>\<open>iris_tools.calculate_exposure_time_correction\<close> is not
  among the sources. The spec: the correction is skipped unless forced when the unit
  already carries an inverse-time factor; otherwise every array is divided by the
  broadcast exposure-time array and the unit is multiplied by inverse time. The arrays of
  the result are new arrays; a skipped correction hands back the arrays it was given.
\<close>

definition calculate_exposure_time_correction ::
  "nat list \<Rightarrow> punit \<Rightarrow> fl ndarray \<Rightarrow> bool \<Rightarrow> (nat list \<times> punit) io" where
  "calculate_exposure_time_correction old_data_arrays old_unit exposure_time force =
     (if \<not> force \<and> carries_inverse_time old_unit then returnS (old_data_arrays, old_unit)
      else
        bindS (mapS (\<lambda>r. bindS (get_array r) (\<lambda>old_data.
                 bindS (liftE (broadcast_op fdiv old_data exposure_time)) new_array))
               old_data_arrays) (\<lambda>new_data_arrays.
        returnS (new_data_arrays, old_unit\<lparr>time_pow := time_pow old_unit - 1\<rparr>)))"

text \<open>
  Modelled from the spec: \<^verbatim>\<open>iris_tools.uncalculate_exposure_time_correction\<close> is not
  among the sources. The spec: undoing is skipped unless forced when the unit carries
  no inverse-time factor; otherwise every array is multiplied by the broadcast
  exposure-time array and the unit is divided by inverse time.
\<close>

definition uncalculate_exposure_time_correction ::
  "nat list \<Rightarrow> punit \<Rightarrow> fl ndarray \<Rightarrow> bool \<Rightarrow> (nat list \<times> punit) io" where
  "uncalculate_exposure_time_correction old_data_arrays old_unit exposure_time force =
     (if \<not> force \<and> \<not> carries_inverse_time old_unit then returnS (old_data_arrays, old_unit)
      else
        bindS (mapS (\<lambda>r. bindS (get_array r) (\<lambda>old_data.
                 bindS (liftE (broadcast_op fmul old_data exposure_time)) new_array))
               old_data_arrays) (\<lambda>new_data_arrays.
        returnS (new_data_arrays, old_unit\<lparr>time_pow := time_pow old_unit + 1\<rparr>)))"

text \<open>\<^verbatim>\<open>np.isscalar\<close> of the value of an extra coordinate.\<close>

fun np_isscalar :: "coord_val \<Rightarrow> bool" where
  "np_isscalar (CScalar x) = True"
| "np_isscalar v = False"

text \<open>\<^verbatim>\<open>u.Quantity(value, unit='s').value\<close>: a value without a unit is taken as seconds,
  a value in a unit of time is converted to seconds, any other unit does not convert.\<close>

fun quantity_seconds :: "coord_val \<Rightarrow> error + fl ndarray" where
  "quantity_seconds (CScalar x) = Inr \<lparr>shape = [], elems = [x]\<rparr>"
| "quantity_seconds (CVector xs) = Inr \<lparr>shape = [length xs], elems = xs\<rparr>"
| "quantity_seconds (CQuantity xs q) =
     (case seconds_per_unit q of
        None \<Rightarrow> Inl UnitConversionError
      | Some k \<Rightarrow> Inr \<lparr>shape = [length xs], elems = map (\<lambda>x. fmul x (Fin k)) xs\<rparr>)"
| "quantity_seconds (CTimes ts) = Inl TypeError"

text \<open>\<^verbatim>\<open>a[:, np.newaxis]\<close> and \<^verbatim>\<open>a[:, np.newaxis, np.newaxis]\<close> on a vector.\<close>

definition newaxes :: "nat \<Rightarrow> fl ndarray \<Rightarrow> fl ndarray" where
  "newaxes k a = a\<lparr>shape := shape a @ replicate k 1\<rparr>"

text \<open>Lines 185 to 196: the exposure times in seconds, shaped for the sample array.\<close>

definition exposure_time_array :: "cube \<Rightarrow> fl ndarray io" where
  "exposure_time_array self =
     (case map_of (extra_coords self) ''EXPOSURE TIME'' of
        None \<Rightarrow> raiseS (KeyError ''EXPOSURE TIME'')
      | Some (ax, v) \<Rightarrow>
          bindS (liftE (quantity_seconds v)) (\<lambda>exposure_time_s.
          if \<not> np_isscalar v then
            bindS (get_array (data self)) (\<lambda>d.
            if ndim d = 1 then returnS exposure_time_s
            else if ndim d = 2 then returnS (newaxes 1 exposure_time_s)
            else if ndim d = 3 then returnS (newaxes 2 exposure_time_s)
            else raiseS (ValueError ''IRISMapCube dimensions must be 2 or 3''))
          else returnS exposure_time_s))"

definition apply_exposure_time_correction :: "nat \<Rightarrow> bool \<Rightarrow> bool \<Rightarrow> nat io" where
  "apply_exposure_time_correction self_ref undo force =
     bindS (get_cube self_ref) (\<lambda>self.
     if scaled self \<noteq> Some True then
       raiseS (ValueError ''This method is not available as you are using memmap'')
     else
       bindS (exposure_time_array self) (\<lambda>exposure_time_s.
       bindS (case uncertainty self of None \<Rightarrow> raiseS AttributeError
                                     | Some u \<Rightarrow> returnS u) (\<lambda>unc.
       bindS (if undo then
                uncalculate_exposure_time_correction [data self, unc] (unit self)
                  exposure_time_s force
              else
                calculate_exposure_time_correction [data self, unc] (unit self)
                  exposure_time_s force) (\<lambda>(new_data_arrays, new_unit).
       case new_data_arrays of
         [d, u] \<Rightarrow> IRISMapCube d (wcs self) (Some u) new_unit (meta self) (mask_array self)
                     (extra_coords self) None
       | _ \<Rightarrow> raiseS IndexError))))"

section \<open>Sequences of cubes\<close>

record sequence =
  data_list :: "nat list"
  seq_meta :: "meta_dict option"
  common_axis :: nat

text \<open>Python's \<^verbatim>\<open>!=\<close> on metadata values: an integer and a float compare by value.\<close>

fun py_ne :: "pyval \<Rightarrow> pyval \<Rightarrow> bool" where
  "py_ne (PVal (HInt i)) (PVal (HFloat r)) = (of_int i \<noteq> r)"
| "py_ne (PVal (HFloat r)) (PVal (HInt i)) = (r \<noteq> of_int i)"
| "py_ne a b = (a \<noteq> b)"

definition meta_OBSID :: "cube \<Rightarrow> error + pyval" where
  "meta_OBSID c = (case meta c ''OBSID'' of None \<Rightarrow> Inl (KeyError ''OBSID'') | Some v \<Rightarrow> Inr v)"

text \<open>
  \<^verbatim>\<open>[cube.meta["OBSID"] != data_list[0].meta["OBSID"] for cube in data_list]\<close>:
  the first cube is looked up once per element, so not at all for the empty list.
\<close>

definition obsid_differs :: "cube list \<Rightarrow> error + bool list" where
  "obsid_differs cs =
     (case cs of
        [] \<Rightarrow> Inr []
      | first # rest \<Rightarrow>
          mapE (\<lambda>c. bindE (meta_OBSID c) (\<lambda>a. bindE (meta_OBSID first) (\<lambda>b. Inr (py_ne a b)))) cs)"

definition IRISMapCubeSequence :: "nat list \<Rightarrow> meta_dict option \<Rightarrow> nat \<Rightarrow> sequence io" where
  "IRISMapCubeSequence dl m ax =
     bindS (mapS get_cube dl) (\<lambda>cs.
     bindS (liftE (obsid_differs cs)) (\<lambda>flags.
     if list_ex (\<lambda>b. b) flags then
       raiseS (ValueError ''Constituent IRISMapCube objects must have same value of OBSID in its meta.'')
     else returnS \<lparr>data_list = dl, seq_meta = m, common_axis = ax\<rparr>))"

section \<open>FITS files\<close>

text \<open>
  The binary table of the second HDU is kept by column: the code only reads whole
  columns, \<^verbatim>\<open>hdulist[1].data[:, j]\<close>.
\<close>

record aux_hdu =
  header1 :: header
  columns1 :: "fl list list"

record fits_file =
  header0 :: header
  data0 :: "fl ndarray"
  hdu1 :: "aux_hdu option"

text \<open>What the reader finds around it: the files, \<^verbatim>\<open>parse_time\<close>, and the constants
  of \<^verbatim>\<open>iris_tools\<close>.\<close>

record env =
  fits_files :: "string \<rightharpoonup> fits_file"
  parse_time :: "hval \<Rightarrow> error + real"
  iris_tools :: calibration

text \<open>
  An open file: the primary array is an array object of the store, the same object at
  every \<^verbatim>\<open>hdulist[0].data\<close>. \<^verbatim>\<open>hdulist.verify('fix')\<close> and \<^verbatim>\<open>WCS(header)\<close> are
  taken to succeed, and the primary array to hold floats.
\<close>

record hdulist =
  hdu_name :: string
  hdu_memmap :: bool
  hdu0_header :: header
  hdu0_data :: nat
  hdu1_of :: "aux_hdu option"

definition fits_open :: "env \<Rightarrow> string \<Rightarrow> bool \<Rightarrow> hdulist io" where
  "fits_open ev filename memmap =
     (\<lambda>w. case fits_files ev filename of
            None \<Rightarrow> (Inl (FileNotFoundError filename), w)
          | Some f \<Rightarrow>
              (Inr \<lparr>hdu_name = filename, hdu_memmap = memmap, hdu0_header = header0 f,
                    hdu0_data = length (arrays w), hdu1_of = hdu1 f\<rparr>,
               w\<lparr>arrays := arrays w @ [data0 f], open_files := filename # open_files w\<rparr>))"

text \<open>
  \<^verbatim>\<open>hdulist.close()\<close>. A file opened with \<^verbatim>\<open>memmap=True\<close> stays open: the memory
  map keeps its descriptor as long as the primary array is alive, and the cube holds it.
\<close>

definition hdulist_close :: "hdulist \<Rightarrow> unit io" where
  "hdulist_close h =
     (\<lambda>w. if hdu_memmap h then (Inr (), w)
          else (Inr (), w\<lparr>open_files := remove1 (hdu_name h) (open_files w)\<rparr>))"

definition BAD_PIXEL_VALUE_SCALED :: fl where
  "BAD_PIXEL_VALUE_SCALED = Fin (- 200)"

definition BAD_PIXEL_VALUE_UNSCALED :: fl where
  "BAD_PIXEL_VALUE_UNSCALED = Fin (- 32768)"

text \<open>\<^verbatim>\<open>hdulist[1].data[:, hdulist[1].header[key]]\<close>: a negative index counts from the
  last column.\<close>

definition table_column :: "aux_hdu \<Rightarrow> string \<Rightarrow> error + fl list" where
  "table_column t key =
     (case header1 t key of
        None \<Rightarrow> Inl (KeyError key)
      | Some (HInt i) \<Rightarrow>
          (let n = int (length (columns1 t)); j = (if i < 0 then n + i else i)
           in if 0 \<le> j \<and> j < n then Inr (columns1 t ! nat j) else Inl IndexError)
      | Some v \<Rightarrow> Inl IndexError)"

text \<open>
  \<^verbatim>\<open>t0 + timedelta(seconds=s)\<close>; a time is its seconds since the first moment a
  \<^verbatim>\<open>datetime\<close> can hold. A \<^verbatim>\<open>timedelta\<close> has at most 999999999 days, and the sum must
  be a \<^verbatim>\<open>datetime\<close> again (before the year 10000), or OverflowError is raised. Times are
  taken exactly, not to the microsecond.
\<close>

definition timedelta_ok :: "real \<Rightarrow> bool" where
  "timedelta_ok s \<longleftrightarrow> - 999999999 \<le> \<lfloor>s / 86400\<rfloor> \<and> \<lfloor>s / 86400\<rfloor> \<le> 999999999"

definition datetime_ok :: "real \<Rightarrow> bool" where
  "datetime_ok t \<longleftrightarrow> 0 \<le> t \<and> t < 3652059 * 86400"

fun add_seconds :: "real \<Rightarrow> fl \<Rightarrow> error + real" where
  "add_seconds t0 (Fin s) =
     (if timedelta_ok s \<and> datetime_ok (t0 + s) then Inr (t0 + s) else Inl OverflowError)"
| "add_seconds t0 NaN = Inl (ValueError ''cannot convert float NaN to integer'')"
| "add_seconds t0 s = Inl OverflowError"

text \<open>Lines 340 to 342: the start of the observation is read and parsed once per frame.\<close>

definition frame_times :: "env \<Rightarrow> header \<Rightarrow> fl list \<Rightarrow> error + real list" where
  "frame_times ev hdr offsets =
     mapE (\<lambda>s. bindE (case hdr ''STARTOBS'' of
                         None \<Rightarrow> Inl (KeyError ''STARTOBS'')
                       | Some v \<Rightarrow> parse_time ev v) (\<lambda>t0. add_seconds t0 s)) offsets"

text \<open>\<^verbatim>\<open>u.arcsec\<close> and \<^verbatim>\<open>u.m/u.s\<close>.\<close>

definition arcsec :: qunit where
  "arcsec = \<lparr>qunit_name = ''arcsec'', seconds_per_unit = None\<rparr>"

definition metre_per_second :: qunit where
  "metre_per_second = \<lparr>qunit_name = ''m / s'', seconds_per_unit = None\<rparr>"

text \<open>Lines 338 to 352; \<open>hdr\<close> is the primary header, \<open>aux\<close> is \<^verbatim>\<open>hdulist[1]\<close>.\<close>

definition read_extra_coords ::
  "env \<Rightarrow> header \<Rightarrow> aux_hdu option \<Rightarrow> error + (string \<times> nat option \<times> coord_val) list" where
  "read_extra_coords ev hdr aux =
     (case aux of
        None \<Rightarrow> Inl IndexError
      | Some t \<Rightarrow>
          bindE (table_column t ''EXPTIMES'') (\<lambda>exposure_times.
          bindE (table_column t ''TIME'') (\<lambda>offsets.
          bindE (frame_times ev hdr offsets) (\<lambda>times.
          bindE (table_column t ''PZTX'') (\<lambda>pztx.
          bindE (table_column t ''PZTY'') (\<lambda>pzty.
          bindE (table_column t ''XCENIX'') (\<lambda>xcenix.
          bindE (table_column t ''YCENIX'') (\<lambda>ycenix.
          bindE (table_column t ''OBS_VRIX'') (\<lambda>obs_vrix.
          bindE (table_column t ''OPHASEIX'') (\<lambda>ophaseix.
          Inr [(''TIME'', Some 0, CTimes times),
               (''PZTX'', Some 0, CQuantity pztx arcsec),
               (''PZTY'', Some 0, CQuantity pzty arcsec),
               (''XCENIX'', Some 0, CQuantity xcenix arcsec),
               (''YCENIX'', Some 0, CQuantity ycenix arcsec),
               (''OBS_VRIX'', Some 0, CQuantity obs_vrix metre_per_second),
               (''OPHASEIX'', Some 0, CVector ophaseix),
               (''EXPOSURE TIME'', Some 0, CVector exposure_times)]))))))))))"

fun truthy :: "hval \<Rightarrow> bool" where
  "truthy (HStr s) = (s \<noteq> [])"
| "truthy (HInt i) = (i \<noteq> 0)"
| "truthy (HFloat r) = (r \<noteq> 0)"

definition header_get :: "header \<Rightarrow> string \<Rightarrow> pyval" where
  "header_get hdr key = (case hdr key of None \<Rightarrow> PNone | Some v \<Rightarrow> PVal v)"

text \<open>\<^verbatim>\<open>x = header.get(key, None); x = parse_time(x) if x else None\<close>.\<close>

definition parse_if_present :: "env \<Rightarrow> header \<Rightarrow> string \<Rightarrow> error + pyval" where
  "parse_if_present ev hdr key =
     (case hdr key of
        None \<Rightarrow> Inr PNone
      | Some v \<Rightarrow> if truthy v then bindE (parse_time ev v) (\<lambda>t. Inr (PTime t)) else Inr PNone)"

text \<open>Lines 354 to 365; \<open>shp\<close> is the shape of the primary array.\<close>

definition read_meta :: "env \<Rightarrow> header \<Rightarrow> nat list \<Rightarrow> error + meta_dict" where
  "read_meta ev hdr shp =
     bindE (parse_if_present ev hdr ''STARTOBS'') (\<lambda>startobs.
     bindE (parse_if_present ev hdr ''ENDOBS'') (\<lambda>endobs.
     bindE (case shp of [] \<Rightarrow> Inl IndexError | n # ns \<Rightarrow> Inr n) (\<lambda>nbframes.
     Inr [''TELESCOP'' \<mapsto> header_get hdr ''TELESCOP'',
          ''INSTRUME'' \<mapsto> header_get hdr ''INSTRUME'',
          ''TWAVE1'' \<mapsto> header_get hdr ''TWAVE1'',
          ''STARTOBS'' \<mapsto> startobs,
          ''ENDOBS'' \<mapsto> endobs,
          ''NBFRAMES'' \<mapsto> PVal (HInt (int nbframes)),
          ''OBSID'' \<mapsto> header_get hdr ''OBSID'',
          ''OBS_DESC'' \<mapsto> header_get hdr ''OBS_DESC''])))"

text \<open>The factor of \<^verbatim>\<open>.to(u.photon)\<close>; a unit with a power of time does not convert.\<close>

definition photon_factor :: "punit \<Rightarrow> error + real" where
  "photon_factor un = (if time_pow un = 0 then Inr (unit_scale un) else Inl UnitConversionError)"

text \<open>Lines 334 to 336 at one sample \<open>x\<close>: \<open>k\<close> photons are one unit, the readout
  noise is \<open>r\<close> photons.\<close>

definition pixel_uncertainty :: "real \<Rightarrow> fl \<Rightarrow> fl \<Rightarrow> fl" where
  "pixel_uncertainty k r x = fdiv (fsqrt (fadd (fmul x (Fin k)) (fmul r r))) (Fin k)"

definition sji_uncertainty :: "punit \<Rightarrow> real \<times> punit \<Rightarrow> fl ndarray \<Rightarrow> error + fl ndarray" where
  "sji_uncertainty un readout_noise a =
     bindE (photon_factor un) (\<lambda>k.
     bindE (photon_factor (snd readout_noise)) (\<lambda>kr.
     Inr \<lparr>shape = shape a,
          elems = map (pixel_uncertainty k (fmul (Fin (fst readout_noise)) (Fin kr))) (elems a)\<rparr>))"

text \<open>Lines 317 to 336: \<open>data\<close> and \<open>data_nan_masked\<close> are the same array object.\<close>

definition normalize_bad_pixels ::
  "env \<Rightarrow> bool \<Rightarrow> nat \<Rightarrow> nat \<Rightarrow> (bool ndarray option \<times> bool \<times> punit \<times> nat option) io" where
  "normalize_bad_pixels ev memmap data_ref data_nan_masked =
     (if memmap then
        bindS (get_array data_ref) (\<lambda>d.
        bindS (get_array data_nan_masked) (\<lambda>dm.
        bindS (put_array data_nan_masked
                 (set_where dm (eq_scalar d BAD_PIXEL_VALUE_UNSCALED) (Fin 0))) (\<lambda>u.
        returnS (None, False, DN_UNIT_SJI_UNSCALED (iris_tools ev), None))))
      else
        bindS (get_array data_ref) (\<lambda>d.
        bindS (get_array data_nan_masked) (\<lambda>dm.
        bindS (put_array data_nan_masked
                 (set_where dm (eq_scalar d BAD_PIXEL_VALUE_SCALED) NaN)) (\<lambda>u.
        bindS (get_array data_nan_masked) (\<lambda>dm1.
        bindS (get_array data_nan_masked) (\<lambda>dm2.
        bindS (liftE (sji_uncertainty (DN_UNIT_SJI (iris_tools ev))
                        (READOUT_NOISE_SJI (iris_tools ev)) dm2)) (\<lambda>unc.
        bindS (new_array unc) (\<lambda>unc_ref.
        returnS (Some (eq_scalar dm1 BAD_PIXEL_VALUE_SCALED), True,
                 DN_UNIT_SJI (iris_tools ev), Some unc_ref)))))))))"

text \<open>The body of the loop between opening and closing the file.\<close>

definition read_cube :: "env \<Rightarrow> bool \<Rightarrow> hdulist \<Rightarrow> (nat \<times> meta_dict) io" where
  "read_cube ev memmap h =
     bindS (normalize_bad_pixels ev memmap (hdu0_data h) (hdu0_data h))
       (\<lambda>(msk, sc, un, unc).
     bindS (liftE (read_extra_coords ev (hdu0_header h) (hdu1_of h))) (\<lambda>ec.
     bindS (get_array (hdu0_data h)) (\<lambda>d.
     bindS (liftE (read_meta ev (hdu0_header h) (shape d))) (\<lambda>m.
     bindS (IRISMapCube (hdu0_data h) (WCS (hdu0_header h)) unc un m msk ec (Some sc)) (\<lambda>c.
     returnS (c, m))))))"

text \<open>One round of the loop: open the file, build its cube, close the file.\<close>

definition read_file :: "env \<Rightarrow> bool \<Rightarrow> string \<Rightarrow> (nat \<times> meta_dict) io" where
  "read_file ev memmap filename =
     bindS (fits_open ev filename memmap) (\<lambda>h.
     bindS (read_cube ev memmap h) (\<lambda>(c, m).
     bindS (hdulist_close h) (\<lambda>u.
     returnS (c, m))))"

text \<open>The loop; \<open>m\<close> is the variable \<^verbatim>\<open>meta\<close>, unbound before the first round.\<close>

fun read_files ::
  "env \<Rightarrow> bool \<Rightarrow> string list \<Rightarrow> nat list \<Rightarrow> meta_dict option \<Rightarrow>
   (nat list \<times> meta_dict option) io" where
  "read_files ev memmap [] list_of_cubes m = returnS (list_of_cubes, m)"
| "read_files ev memmap (filename # rest) list_of_cubes m =
     bindS (read_file ev memmap filename) (\<lambda>(c, m1).
     read_files ev memmap rest (list_of_cubes @ [c]) (Some m1))"

datatype filenames = Str string | StrList "string list"

datatype result = ACube nat | ASequence sequence

definition read_iris_sji_level2_fits :: "env \<Rightarrow> filenames \<Rightarrow> bool \<Rightarrow> result io" where
  "read_iris_sji_level2_fits ev names memmap =
     (let filenames = (case names of Str s \<Rightarrow> [s] | StrList l \<Rightarrow> l) in
      bindS (read_files ev memmap filenames [] None) (\<lambda>(list_of_cubes, m).
      if length filenames = 1 then
        (case list_of_cubes of [] \<Rightarrow> raiseS IndexError | c # cs \<Rightarrow> returnS (ACube c))
      else
        (case m of
           None \<Rightarrow> raiseS (UnboundLocalError ''meta'')
         | Some m1 \<Rightarrow>
             bindS (IRISMapCubeSequence list_of_cubes (Some m1) 0) (\<lambda>s.
             returnS (ASequence s)))))"

text \<open>
  \<open>grows w w'\<close>: the step from \<open>w\<close> to \<open>w'\<close> only created arrays; no array and no
  cube of \<open>w\<close> changed, no file was opened or closed.
\<close>

definition grows :: "world \<Rightarrow> world \<Rightarrow> bool" where
  "grows w w' \<longleftrightarrow>
     (\<exists>as. arrays w' = arrays w @ as) \<and> cubes w' = cubes w \<and> open_files w' = open_files w"

text \<open>
  \<open>file_cube ev memmap f w c\<close>: in the world \<open>w\<close>, the cube \<open>c\<close> holds what the loop
  body computes from the file \<open>f\<close>.
\<close>

definition file_cube :: "env \<Rightarrow> bool \<Rightarrow> fits_file \<Rightarrow> world \<Rightarrow> cube \<Rightarrow> bool" where
  "file_cube ev memmap f w c \<longleftrightarrow>
     wcs c = WCS (header0 f) \<and>
     read_meta ev (header0 f) (shape (data0 f)) = Inr (meta c) \<and>
     read_extra_coords ev (header0 f) (hdu1 f) = Inr (extra_coords c) \<and>
     data c < length (arrays w) \<and>
     (if memmap then
        arrays w ! data c =
          set_where (data0 f) (eq_scalar (data0 f) BAD_PIXEL_VALUE_UNSCALED) (Fin 0) \<and>
        mask_array c = None \<and> uncertainty c = None \<and> scaled c = Some False \<and>
        unit c = DN_UNIT_SJI_UNSCALED (iris_tools ev)
      else
        arrays w ! data c =
          set_where (data0 f) (eq_scalar (data0 f) BAD_PIXEL_VALUE_SCALED) NaN \<and>
        mask_array c = Some (eq_scalar (arrays w ! data c) BAD_PIXEL_VALUE_SCALED) \<and>
        scaled c = Some True \<and> unit c = DN_UNIT_SJI (iris_tools ev) \<and>
        (case uncertainty c of
           None \<Rightarrow> False
         | Some u \<Rightarrow>
             u < length (arrays w) \<and>
             sji_uncertainty (DN_UNIT_SJI (iris_tools ev)) (READOUT_NOISE_SJI (iris_tools ev))
               (arrays w ! data c) = Inr (arrays w ! u)))"

text \<open>
  The files a finished loop over \<open>names\<close> leaves open: none, or with \<^verbatim>\<open>memmap=True\<close>
  all of them, the last one opened first.
\<close>

definition held :: "bool \<Rightarrow> string list \<Rightarrow> string list" where
  "held memmap names = (if memmap then rev names else [])"

text \<open>The list of file names the loop runs over.\<close>

definition names_of :: "filenames \<Rightarrow> string list" where
  "names_of names = (case names of Str s \<Rightarrow> [s] | StrList l \<Rightarrow> l)"

text \<open>The cubes a result refers to, in order.\<close>

definition result_cubes :: "result \<Rightarrow> nat list" where
  "result_cubes r = (case r of ACube c \<Rightarrow> [c] | ASequence s \<Rightarrow> data_list s)"

section \<open>A small observation\<close>

text \<open>Two frames of one pixel; the first sample is the bad-pixel value.\<close>

definition example_calibration :: calibration where
  "example_calibration =
     \<lparr>DN_UNIT_SJI = \<lparr>unit_name = ''DN_IRIS_SJI'', unit_scale = 18, time_pow = 0\<rparr>,
      DN_UNIT_SJI_UNSCALED =
        \<lparr>unit_name = ''DN_IRIS_SJI_UNSCALED'', unit_scale = 1, time_pow = 0\<rparr>,
      READOUT_NOISE_SJI =
        (2, \<lparr>unit_name = ''DN_IRIS_SJI'', unit_scale = 18, time_pow = 0\<rparr>)\<rparr>"

definition example_aux :: aux_hdu where
  "example_aux =
     \<lparr>header1 = [''EXPTIMES'' \<mapsto> HInt 0, ''TIME'' \<mapsto> HInt 1, ''PZTX'' \<mapsto> HInt 2,
                 ''PZTY'' \<mapsto> HInt 2, ''XCENIX'' \<mapsto> HInt 2, ''YCENIX'' \<mapsto> HInt 2,
                 ''OBS_VRIX'' \<mapsto> HInt 2, ''OPHASEIX'' \<mapsto> HInt 2],
      columns1 = [[Fin 2, Fin 4], [Fin 0, Fin 8], [Fin 1, Fin 1]]\<rparr>"

definition example_file :: "int \<Rightarrow> fits_file" where
  "example_file obsid =
     \<lparr>header0 = [''STARTOBS'' \<mapsto> HStr ''2014-01-01'', ''OBSID'' \<mapsto> HInt obsid],
      data0 = \<lparr>shape = [2, 1, 1], elems = [Fin (- 200), Fin 4]\<rparr>,
      hdu1 = Some example_aux\<rparr>"

text \<open>A second file of the same observation, with a description of its own.\<close>

definition second_file :: fits_file where
  "second_file =
     \<lparr>header0 = [''STARTOBS'' \<mapsto> HStr ''2014-01-01'', ''OBSID'' \<mapsto> HInt 7,
                 ''OBS_DESC'' \<mapsto> HStr ''second''],
      data0 = \<lparr>shape = [2, 1, 1], elems = [Fin 1, Fin 4]\<rparr>,
      hdu1 = Some example_aux\<rparr>"

text \<open>A file whose table header names no column.\<close>

definition broken_file :: fits_file where
  "broken_file =
     \<lparr>header0 = [''STARTOBS'' \<mapsto> HStr ''2014-01-01'', ''OBSID'' \<mapsto> HInt 7],
      data0 = \<lparr>shape = [2, 1, 1], elems = [Fin (- 200), Fin 4]\<rparr>,
      hdu1 = Some \<lparr>header1 = Map.empty, columns1 = []\<rparr>\<rparr>"

text \<open>A file of two frames whose table has one row only.\<close>

definition short_file :: fits_file where
  "short_file =
     \<lparr>header0 = [''STARTOBS'' \<mapsto> HStr ''2014-01-01'', ''OBSID'' \<mapsto> HInt 7],
      data0 = \<lparr>shape = [2, 1, 1], elems = [Fin 1, Fin 4]\<rparr>,
      hdu1 = Some (example_aux\<lparr>columns1 := [[Fin 2], [Fin 0], [Fin 1]]\<rparr>)\<rparr>"

text \<open>The files at hand; there is no file \<^verbatim>\<open>missing.fits\<close>.\<close>

definition example_env :: env where
  "example_env =
     \<lparr>fits_files = [''a.fits'' \<mapsto> example_file 7, ''b.fits'' \<mapsto> second_file,
                    ''c.fits'' \<mapsto> example_file 8, ''broken.fits'' \<mapsto> broken_file,
                    ''short.fits'' \<mapsto> short_file],
      parse_time = (\<lambda>v. Inr 0),
      iris_tools = example_calibration\<rparr>"

definition empty_world :: world where
  "empty_world = \<lparr>arrays = [], cubes = [], open_files = []\<rparr>"

text \<open>The worlds after reading the file \<^verbatim>\<open>a.fits\<close>, scaled and memory-mapped.\<close>

definition scaled_world :: world where
  "scaled_world = snd (read_iris_sji_level2_fits example_env (Str ''a.fits'') False empty_world)"

definition memmap_world :: world where
  "memmap_world = snd (read_iris_sji_level2_fits example_env (Str ''a.fits'') True empty_world)"

text \<open>The world after one exposure time correction of the cube of \<open>scaled_world\<close>.\<close>

definition corrected_world :: world where
  "corrected_world = snd (apply_exposure_time_correction 0 False False scaled_world)"

text \<open>The world after a forced undo on the cube of \<open>scaled_world\<close>.\<close>

definition undone_world :: world where
  "undone_world = snd (apply_exposure_time_correction 0 True True scaled_world)"

text \<open>A scaled cube whose sample array has four axes.\<close>

definition rank4_world :: world where
  "rank4_world =
     \<lparr>arrays = [\<lparr>shape = [2, 1, 1, 1], elems = [Fin 6, Fin 8]\<rparr>,
                 \<lparr>shape = [2, 1, 1, 1], elems = [Fin 1, Fin 1]\<rparr>],
      cubes = [\<lparr>data = 0, wcs = WCS Map.empty, uncertainty = Some 1,
                 unit = \<lparr>unit_name = ''DN_IRIS_SJI'', unit_scale = 18, time_pow = 0\<rparr>,
                 meta = Map.empty, mask_array = None,
                 extra_coords = [(''EXPOSURE TIME'', Some 0, CVector [Fin 2, Fin 4])],
                 scaled = Some True\<rparr>],
      open_files = []\<rparr>"

text \<open>A scaled cube of one axis, and one of two axes whose exposure times are in minutes.\<close>

definition minute :: qunit where
  "minute = \<lparr>qunit_name = ''min'', seconds_per_unit = Some 60\<rparr>"

definition rank1_world :: world where
  "rank1_world =
     \<lparr>arrays = [\<lparr>shape = [2], elems = [Fin 6, Fin 8]\<rparr>,
                 \<lparr>shape = [2], elems = [Fin 2, Fin 2]\<rparr>],
      cubes = [\<lparr>data = 0, wcs = WCS Map.empty, uncertainty = Some 1,
                 unit = \<lparr>unit_name = ''DN_IRIS_SJI'', unit_scale = 18, time_pow = 0\<rparr>,
                 meta = Map.empty, mask_array = None,
                 extra_coords = [(''EXPOSURE TIME'', Some 0, CVector [Fin 2, Fin 4])],
                 scaled = Some True\<rparr>],
      open_files = []\<rparr>"

definition rank2_world :: world where
  "rank2_world =
     \<lparr>arrays = [\<lparr>shape = [2, 3], elems = [Fin 60, Fin 120, Fin 180, Fin 120, Fin 240, Fin 360]\<rparr>,
                 \<lparr>shape = [2, 3], elems = [Fin 6, Fin 6, Fin 6, Fin 12, Fin 12, Fin 12]\<rparr>],
      cubes = [\<lparr>data = 0, wcs = WCS Map.empty, uncertainty = Some 1,
                 unit = \<lparr>unit_name = ''DN_IRIS_SJI'', unit_scale = 18, time_pow = 0\<rparr>,
                 meta = Map.empty, mask_array = None,
                 extra_coords = [(''EXPOSURE TIME'', Some 0, CQuantity [Fin 1, Fin 2] minute)],
                 scaled = Some True\<rparr>],
      open_files = []\<rparr>"

text \<open>The worlds after a correction of the cube of \<open>rank2_world\<close> and after a forced
  undo on the cube of \<open>rank1_world\<close>.\<close>

definition rank2_corrected_world :: world where
  "rank2_corrected_world = snd (apply_exposure_time_correction 0 False False rank2_world)"

definition rank1_undone_world :: world where
  "rank1_undone_world = snd (apply_exposure_time_correction 0 True True rank1_world)"

text \<open>Three cubes with the observation ids 7, 7 and 8.\<close>

definition obsid_world :: world where
  "obsid_world =
     \<lparr>arrays = [\<lparr>shape = [1], elems = [Fin 1]\<rparr>],
      cubes = map (\<lambda>i. \<lparr>data = 0, wcs = WCS Map.empty, uncertainty = None,
                         unit = \<lparr>unit_name = ''DN_IRIS_SJI'', unit_scale = 18, time_pow = 0\<rparr>,
                         meta = [''OBSID'' \<mapsto> PVal (HInt i)], mask_array = None,
                         extra_coords = [], scaled = Some True\<rparr>) [7, 7, 8],
      open_files = []\<rparr>"

text \<open>The worlds after reading two files: both good, and the second one broken.\<close>

definition pair_world :: world where
  "pair_world =
     snd (read_iris_sji_level2_fits example_env (StrList [''a.fits'', ''b.fits'']) False empty_world)"

definition leaking_world :: world where
  "leaking_world =
     snd (read_iris_sji_level2_fits example_env (StrList [''a.fits'', ''broken.fits'']) False
            empty_world)"

text \<open>The worlds after reading two files, the second one with a table that is too short,
  and the second one missing.\<close>

definition short_world :: world where
  "short_world =
     snd (read_iris_sji_level2_fits example_env (StrList [''a.fits'', ''short.fits'']) False
            empty_world)"

definition missing_world :: world where
  "missing_world =
     snd (read_iris_sji_level2_fits example_env (StrList [''a.fits'', ''missing.fits'']) False
            empty_world)"

text \<open>The worlds after reading two files of different observations, and after reading
  the good and the broken file with \<^verbatim>\<open>memmap=True\<close>.\<close>

definition mismatch_world :: world where
  "mismatch_world =
     snd (read_iris_sji_level2_fits example_env (StrList [''a.fits'', ''c.fits'']) False
            empty_world)"

definition memmap_leaking_world :: world where
  "memmap_leaking_world =
     snd (read_iris_sji_level2_fits example_env (StrList [''a.fits'', ''broken.fits'']) True
            empty_world)"

section \<open>Evaluation of the small observation\<close>

lemmas eval_defs =
  example_env_def example_file_def second_file_def example_aux_def example_calibration_def empty_world_def
  broken_file_def short_file_def minute_def read_iris_sji_level2_fits_def bindS_def bindE_def returnS_def raiseS_def
  liftE_def fits_open_def hdulist_close_def read_cube_def read_file_def
  normalize_bad_pixels_def get_array_def put_array_def new_array_def IRISMapCube_def
  read_extra_coords_def read_meta_def table_column_def frame_times_def parse_if_present_def
  header_get_def sji_uncertainty_def photon_factor_def pixel_uncertainty_def eq_scalar_def
  set_where_def BAD_PIXEL_VALUE_SCALED_def BAD_PIXEL_VALUE_UNSCALED_def
  IRISMapCubeSequence_def get_cube_def obsid_differs_def meta_OBSID_def
  apply_exposure_time_correction_def exposure_time_array_def
  calculate_exposure_time_correction_def uncalculate_exposure_time_correction_def
  broadcast_op_def pad_shape_def chunk_def newaxes_def ndim_def carries_inverse_time_def
  lookup_cube_def check_extra_coord_def timedelta_ok_def datetime_ok_def held_def
  upt_rec eval_nat_numeral

lemma read_a_scaled:
  "read_iris_sji_level2_fits example_env (Str ''a.fits'') False empty_world =
     (Inr (ACube 0), scaled_world)"
  by (simp add: scaled_world_def eval_defs)

lemma read_a_memmap:
  "read_iris_sji_level2_fits example_env (Str ''a.fits'') True empty_world =
     (Inr (ACube 0), memmap_world)"
  by (simp add: memmap_world_def eval_defs)

lemma scaled_world_eval:
  "scaled_world =
     \<lparr>arrays = [\<lparr>shape = [2, 1, 1], elems = [NaN, Fin 4]\<rparr>,
                 \<lparr>shape = [2, 1, 1], elems = [NaN, Fin (sqrt 1368 / 18)]\<rparr>],
      cubes = [\<lparr>data = 0,
                 wcs = WCS [''STARTOBS'' \<mapsto> HStr ''2014-01-01'', ''OBSID'' \<mapsto> HInt 7],
                 uncertainty = Some 1,
                 unit = \<lparr>unit_name = ''DN_IRIS_SJI'', unit_scale = 18, time_pow = 0\<rparr>,
                 meta = [''TELESCOP'' \<mapsto> PNone, ''INSTRUME'' \<mapsto> PNone, ''TWAVE1'' \<mapsto> PNone,
                         ''STARTOBS'' \<mapsto> PTime 0, ''ENDOBS'' \<mapsto> PNone,
                         ''NBFRAMES'' \<mapsto> PVal (HInt 2), ''OBSID'' \<mapsto> PVal (HInt 7),
                         ''OBS_DESC'' \<mapsto> PNone],
                 mask_array = Some \<lparr>shape = [2, 1, 1], elems = [False, False]\<rparr>,
                 extra_coords =
                   [(''TIME'', Some 0, CTimes [0, 8]),
                    (''PZTX'', Some 0, CQuantity [Fin 1, Fin 1] arcsec),
                    (''PZTY'', Some 0, CQuantity [Fin 1, Fin 1] arcsec),
                    (''XCENIX'', Some 0, CQuantity [Fin 1, Fin 1] arcsec),
                    (''YCENIX'', Some 0, CQuantity [Fin 1, Fin 1] arcsec),
                    (''OBS_VRIX'', Some 0, CQuantity [Fin 1, Fin 1] metre_per_second),
                    (''OPHASEIX'', Some 0, CVector [Fin 1, Fin 1]),
                    (''EXPOSURE TIME'', Some 0, CVector [Fin 2, Fin 4])],
                 scaled = Some True\<rparr>],
      open_files = []\<rparr>"
  by (simp add: scaled_world_def eval_defs)

lemma memmap_world_eval:
  "memmap_world =
     \<lparr>arrays = [\<lparr>shape = [2, 1, 1], elems = [Fin (- 200), Fin 4]\<rparr>],
      cubes = [\<lparr>data = 0,
                 wcs = WCS [''STARTOBS'' \<mapsto> HStr ''2014-01-01'', ''OBSID'' \<mapsto> HInt 7],
                 uncertainty = None,
                 unit = \<lparr>unit_name = ''DN_IRIS_SJI_UNSCALED'', unit_scale = 1, time_pow = 0\<rparr>,
                 meta = [''TELESCOP'' \<mapsto> PNone, ''INSTRUME'' \<mapsto> PNone, ''TWAVE1'' \<mapsto> PNone,
                         ''STARTOBS'' \<mapsto> PTime 0, ''ENDOBS'' \<mapsto> PNone,
                         ''NBFRAMES'' \<mapsto> PVal (HInt 2), ''OBSID'' \<mapsto> PVal (HInt 7),
                         ''OBS_DESC'' \<mapsto> PNone],
                 mask_array = None,
                 extra_coords =
                   [(''TIME'', Some 0, CTimes [0, 8]),
                    (''PZTX'', Some 0, CQuantity [Fin 1, Fin 1] arcsec),
                    (''PZTY'', Some 0, CQuantity [Fin 1, Fin 1] arcsec),
                    (''XCENIX'', Some 0, CQuantity [Fin 1, Fin 1] arcsec),
                    (''YCENIX'', Some 0, CQuantity [Fin 1, Fin 1] arcsec),
                    (''OBS_VRIX'', Some 0, CQuantity [Fin 1, Fin 1] metre_per_second),
                    (''OPHASEIX'', Some 0, CVector [Fin 1, Fin 1]),
                    (''EXPOSURE TIME'', Some 0, CVector [Fin 2, Fin 4])],
                 scaled = Some False\<rparr>],
      open_files = [''a.fits'']\<rparr>"
  by (simp add: memmap_world_def eval_defs)


lemma read_pair:
  "read_iris_sji_level2_fits example_env (StrList [''a.fits'', ''b.fits'']) False empty_world =
     (Inr (ASequence \<lparr>data_list = [0, 1], seq_meta = Some [''TELESCOP'' \<mapsto> PNone, ''INSTRUME'' \<mapsto> PNone, ''TWAVE1'' \<mapsto> PNone,
                             ''STARTOBS'' \<mapsto> PTime 0, ''ENDOBS'' \<mapsto> PNone,
                             ''NBFRAMES'' \<mapsto> PVal (HInt 2), ''OBSID'' \<mapsto> PVal (HInt 7),
                             ''OBS_DESC'' \<mapsto> PVal (HStr ''second'')], common_axis = 0\<rparr>),
      pair_world)"
  by (simp add: pair_world_def eval_defs)


lemma read_leaking:
  "read_iris_sji_level2_fits example_env (StrList [''a.fits'', ''broken.fits'']) False empty_world =
     (Inl (KeyError ''EXPTIMES''), leaking_world)"
  by (simp add: leaking_world_def eval_defs)

lemma leaking_world_files: "open_files leaking_world = [''broken.fits'']"
  by (simp add: leaking_world_def eval_defs)

section \<open>The state monad\<close>

lemma bindS_cases:
  "bindS m f w = (r, w') \<longleftrightarrow>
     (\<exists>e. m w = (Inl e, w') \<and> r = Inl e) \<or> (\<exists>x w1. m w = (Inr x, w1) \<and> f x w1 = (r, w'))"
  by (auto simp: bindS_def split: prod.splits sum.splits)

lemma get_cube_lookup: "get_cube r w = (lookup_cube w r, w)"
  by (simp add: get_cube_def lookup_cube_def)

lemma IRISMapCube_returns:
  "IRISMapCube d wc unc un m msk ec sc w = (Inr r, w') \<Longrightarrow>
     r = length (cubes w) \<and>
     w' = w\<lparr>cubes := cubes w @
            [\<lparr>data = d, wcs = wc, uncertainty = unc, unit = un, meta = m,
              mask_array = msk, extra_coords = ec, scaled = sc\<rparr>]\<rparr>"
  by (auto simp: IRISMapCube_def bindS_def get_array_def liftE_def
      split: if_splits sum.splits)

lemma IRISMapCube_raises:
  "IRISMapCube d wc unc un m msk ec sc w = (Inl e, w') \<Longrightarrow> w' = w"
  by (auto simp: IRISMapCube_def bindS_def get_array_def liftE_def
      split: if_splits sum.splits)

section \<open>Exposure time correction: the precondition\<close>

lemma memmap_guard:
  "lookup_cube w self = Inr c \<Longrightarrow> scaled c \<noteq> Some True \<Longrightarrow>
     apply_exposure_time_correction self undo force w =
       (Inl (ValueError ''This method is not available as you are using memmap''), w)"
  by (simp add: apply_exposure_time_correction_def bindS_def get_cube_lookup raiseS_def)

text \<open>
  Claim C3. A cube that is not scaled (its flag is \<^verbatim>\<open>False\<close>, as after reading with
  \<^verbatim>\<open>memmap=True\<close>, or \<^verbatim>\<open>None\<close>) makes \<^verbatim>\<open>apply_exposure_time_correction\<close> raise the
  ValueError of the memmap check, whatever \<open>undo\<close> and \<open>force\<close> are, and the world
  (every array, every cube, the open files) is as before the call.
\<close>

theorem not_scaled_raises:
  assumes "lookup_cube w self = Inr c" and "scaled c \<noteq> Some True"
  shows "apply_exposure_time_correction self undo force w =
           (Inl (ValueError ''This method is not available as you are using memmap''), w)"
  using assms
  by (simp add: apply_exposure_time_correction_def bindS_def get_cube_lookup raiseS_def)

theorem not_scaled_raises_witness:
  "lookup_cube memmap_world 0 = Inr (cubes memmap_world ! 0) \<and>
   scaled (cubes memmap_world ! 0) = Some False \<and>
   apply_exposure_time_correction 0 True True memmap_world =
     (Inl (ValueError ''This method is not available as you are using memmap''), memmap_world) \<and>
   apply_exposure_time_correction 0 False False memmap_world =
     (Inl (ValueError ''This method is not available as you are using memmap''), memmap_world)"
proof -
  have l: "lookup_cube memmap_world 0 = Inr (cubes memmap_world ! 0)"
    by (simp add: memmap_world_eval lookup_cube_def)
  have s: "scaled (cubes memmap_world ! 0) = Some False"
    by (simp add: memmap_world_eval)
  then have n: "scaled (cubes memmap_world ! 0) \<noteq> Some True" by simp
  show ?thesis
    using l s not_scaled_raises [OF l n, of True True] not_scaled_raises [OF l n, of False False]
    by simp
qed

section \<open>Broadcasting a vector of frames\<close>

lemma concat_chunks: "concat (map (\<lambda>i. chunk n i xs) [0..<d]) = take (d * n) xs"
proof (induction d)
  case 0
  show ?case by simp
next
  case (Suc d)
  have "take (d * n) xs @ take n (drop (d * n) xs) = take (d * n + n) xs"
    by (simp add: take_add)
  with Suc show ?case by (simp add: chunk_def add.commute)
qed

lemma length_chunk:
  "(i + 1) * n \<le> length xs \<Longrightarrow> length (chunk n i xs) = n"
  by (simp add: chunk_def)

lemma broadcast_to_same:
  "length xs = prod_list ds \<Longrightarrow> broadcast_to ds ds xs = xs"
proof (induction ds arbitrary: xs)
  case Nil
  show ?case by simp
next
  case (Cons d ds)
  have "broadcast_to ds ds (chunk (prod_list ds) (if d = 1 then 0 else i) xs) =
        chunk (prod_list ds) i xs" if "i < d" for i
  proof -
    from that have i: "(if d = 1 then 0 else i) = i" by simp
    from that have "(i + 1) * prod_list ds \<le> d * prod_list ds"
      by (intro mult_le_mono1) simp
    with Cons.prems have "length (chunk (prod_list ds) i xs) = prod_list ds"
      by (intro length_chunk) simp
    then show ?thesis unfolding i by (rule Cons.IH)
  qed
  then have "map (\<lambda>i. broadcast_to ds ds (chunk (prod_list ds) (if d = 1 then 0 else i) xs))
        [0..<d] = map (\<lambda>i. chunk (prod_list ds) i xs) [0..<d]"
    by (intro map_cong[OF refl]) simp
  then have "broadcast_to (d # ds) (d # ds) xs =
      concat (map (\<lambda>i. chunk (prod_list ds) i xs) [0..<d])"
    by (simp only: broadcast_to.simps)
  with Cons.prems show ?case by (simp add: concat_chunks)
qed

lemma concat_replicate_const:
  "concat (map (\<lambda>i. replicate m x) [0..<r]) = replicate (r * m) x"
  by (induction r) (simp_all add: replicate_add[symmetric] add.commute)

lemma prod_list_ones: "prod_list (replicate k (1::nat)) = 1"
  by (induction k) simp_all

lemma broadcast_to_ones:
  "broadcast_to (replicate (length rs) 1) rs [x] = replicate (prod_list rs) x"
proof (induction rs)
  case Nil
  show ?case by simp
next
  case (Cons r rs)
  have "chunk (prod_list (replicate (length rs) 1)) 0 [x] = [x]"
    by (simp add: prod_list_ones chunk_def)
  with Cons show ?case by (simp add: concat_replicate_const del: One_nat_def)
qed

lemma broadcast_to_frames:
  "broadcast_to (length ts # replicate (length rs) 1) (length ts # rs) ts =
     concat (map (replicate (prod_list rs)) ts)"
proof -
  have "broadcast_to (replicate (length rs) 1) rs
          (chunk 1 (if length ts = 1 then 0 else i) ts) =
        replicate (prod_list rs) (ts ! i)" if "i < length ts" for i
  proof -
    from that have i: "(if length ts = 1 then 0 else i) = i" by simp
    from that have "chunk 1 i ts = [ts ! i]"
      by (simp add: chunk_def take_Suc hd_drop_conv_nth)
    then show ?thesis unfolding i by (simp only: broadcast_to_ones)
  qed
  then have "map (\<lambda>i. broadcast_to (replicate (length rs) 1) rs
                     (chunk 1 (if length ts = 1 then 0 else i) ts)) [0..<length ts] =
      map (\<lambda>i. replicate (prod_list rs) (ts ! i)) [0..<length ts]"
    by (intro map_cong[OF refl]) simp
  then have "broadcast_to (length ts # replicate (length rs) 1) (length ts # rs) ts =
      concat (map (\<lambda>i. replicate (prod_list rs) (ts ! i)) [0..<length ts])"
    by (simp only: broadcast_to.simps prod_list_ones)
  also have "map (\<lambda>i. replicate (prod_list rs) (ts ! i)) [0..<length ts] =
      map (replicate (prod_list rs)) (map (\<lambda>i. ts ! i) [0..<length ts])"
    by simp
  also have "map (\<lambda>i. ts ! i) [0..<length ts] = ts" by (rule map_nth)
  finally show ?thesis .
qed

lemma broadcast_dims_ones: "broadcast_dims rs (replicate (length rs) 1) = Some rs"
  by (induction rs) simp_all

lemma broadcast_op_frames:
  assumes "shape a = length ts # rs" and "length (elems a) = prod_list (shape a)"
  shows "broadcast_op f a \<lparr>shape = length ts # replicate (length rs) 1, elems = ts\<rparr> =
     Inr \<lparr>shape = shape a,
          elems = map2 f (elems a) (concat (map (replicate (prod_list rs)) ts))\<rparr>"
proof -
  let ?b = "\<lparr>shape = length ts # replicate (length rs) 1, elems = ts\<rparr>"
  have n: "max (ndim a) (ndim ?b) = Suc (length rs)"
    using assms(1) by (simp add: ndim_def)
  have p: "pad_shape (Suc (length rs)) (shape a) = length ts # rs"
    "pad_shape (Suc (length rs)) (shape ?b) = length ts # replicate (length rs) 1"
    using assms(1) by (simp_all add: pad_shape_def)
  have d: "broadcast_dims (length ts # rs) (length ts # replicate (length rs) 1) =
      Some (length ts # rs)"
    by (simp add: broadcast_dims_ones del: One_nat_def)
  have s: "broadcast_to (length ts # rs) (length ts # rs) (elems a) = elems a"
    using assms by (intro broadcast_to_same) simp
  show ?thesis
    unfolding broadcast_op_def Let_def n p d
    by (simp only: option.case s broadcast_to_frames assms(1) ndarray.simps)
qed

section \<open>Exposure time correction: what a call changes\<close>

lemma grows_refl: "grows w w"
  by (simp add: grows_def)

lemma grows_trans: "grows w w1 \<Longrightarrow> grows w1 w2 \<Longrightarrow> grows w w2"
  by (auto simp: grows_def)

lemma divide_one_grows:
  "bindS (get_array r) (\<lambda>a. bindS (liftE (g a)) new_array) w = (res, w') \<Longrightarrow> grows w w'"
  by (auto simp: bindS_def get_array_def liftE_def new_array_def grows_def
      split: if_splits sum.splits)

lemma mapS_grows:
  assumes "\<And>x w res w'. f x w = (res, w') \<Longrightarrow> grows w w'"
  shows "mapS f xs w = (res, w') \<Longrightarrow> grows w w'"
proof (induction xs arbitrary: w res w')
  case Nil
  then show ?case by (simp add: returnS_def grows_refl)
next
  case (Cons x xs)
  from Cons.prems consider
      (a) e where "f x w = (Inl e, w')"
    | (b) y w1 r1 where "f x w = (Inr y, w1)" "mapS f xs w1 = (r1, w')"
    by (auto simp: bindS_cases returnS_def)
  then show ?case
  proof cases
    case a
    then show ?thesis by (rule assms)
  next
    case b
    from b(1) have "grows w w1" by (rule assms)
    moreover from b(2) have "grows w1 w'" by (rule Cons.IH)
    ultimately show ?thesis by (rule grows_trans)
  qed
qed

lemma calculate_grows:
  "calculate_exposure_time_correction rs un t force w = (res, w') \<Longrightarrow> grows w w'"
  unfolding calculate_exposure_time_correction_def
  apply (simp split: if_splits add: returnS_def grows_refl bindS_cases)
  apply (elim disjE exE conjE)
    apply (auto simp: grows_refl dest!: mapS_grows[rotated] divide_one_grows)
  done

lemma uncalculate_grows:
  "uncalculate_exposure_time_correction rs un t force w = (res, w') \<Longrightarrow> grows w w'"
  unfolding uncalculate_exposure_time_correction_def
  apply (simp split: if_splits add: returnS_def grows_refl bindS_cases)
  apply (elim disjE exE conjE)
    apply (auto simp: grows_refl dest!: mapS_grows[rotated] divide_one_grows)
  done

lemma exposure_time_array_world:
  "exposure_time_array c w = (res, w') \<Longrightarrow> w' = w"
  by (auto simp: exposure_time_array_def bindS_def liftE_def raiseS_def returnS_def get_array_def
      split: option.splits prod.splits sum.splits if_splits)

lemma apply_exposure_time_correction_result:
  assumes "apply_exposure_time_correction self undo force w = (Inr r, w')"
  shows "\<exists>c d u un w1. lookup_cube w self = Inr c \<and> grows w w1 \<and> r = length (cubes w) \<and>
           w' = w1\<lparr>cubes := cubes w1 @
                  [\<lparr>data = d, wcs = wcs c, uncertainty = Some u, unit = un, meta = meta c,
                    mask_array = mask_array c, extra_coords = extra_coords c, scaled = None\<rparr>]\<rparr>"
proof -
  from assms obtain c where c: "lookup_cube w self = Inr c" and sc: "scaled c = Some True"
    by (auto simp: apply_exposure_time_correction_def bindS_cases get_cube_lookup raiseS_def
        split: if_splits)
  from assms c sc obtain t where t: "exposure_time_array c w = (Inr t, w)"
    by (auto simp: apply_exposure_time_correction_def bindS_cases get_cube_lookup
        dest: exposure_time_array_world)
  from assms c sc t obtain unc where unc: "uncertainty c = Some unc"
    by (auto simp: apply_exposure_time_correction_def bindS_cases get_cube_lookup raiseS_def
        split: option.splits)
  let ?calc = "if undo then uncalculate_exposure_time_correction [data c, unc] (unit c) t force
               else calculate_exposure_time_correction [data c, unc] (unit c) t force"
  from assms c sc t unc obtain new un w1 where
    calc: "?calc w = (Inr (new, un), w1)" and
    fin: "(case new of [d, u] \<Rightarrow> IRISMapCube d (wcs c) (Some u) un (meta c) (mask_array c)
                     (extra_coords c) None | _ \<Rightarrow> raiseS IndexError) w1 = (Inr r, w')"
    by (auto simp: apply_exposure_time_correction_def bindS_cases get_cube_lookup returnS_def
        simp del: split_paired_Ex)
  from calc have g: "grows w w1"
    by (auto split: if_splits dest: calculate_grows uncalculate_grows)
  from fin obtain d u where new: "new = [d, u]"
    by (auto simp: raiseS_def split: list.splits)
  from fin new have "r = length (cubes w1)" and
    "w' = w1\<lparr>cubes := cubes w1 @
            [\<lparr>data = d, wcs = wcs c, uncertainty = Some u, unit = un, meta = meta c,
              mask_array = mask_array c, extra_coords = extra_coords c, scaled = None\<rparr>]\<rparr>"
    by (auto dest: IRISMapCube_returns)
  moreover from g have "cubes w1 = cubes w" by (simp add: grows_def)
  ultimately show ?thesis using c g by metis
qed

lemma apply_result_unscaled:
  assumes "apply_exposure_time_correction self undo force w = (Inr r, w')"
  shows "\<exists>c'. lookup_cube w' r = Inr c' \<and> scaled c' = None"
  using apply_exposure_time_correction_result[OF assms]
  by (auto simp: lookup_cube_def grows_def)

lemma apply_twice_raises:
  assumes "apply_exposure_time_correction self undo force w = (Inr r, w')"
  shows "apply_exposure_time_correction r undo' force' w' =
           (Inl (ValueError ''This method is not available as you are using memmap''), w')"
proof -
  from apply_result_unscaled[OF assms] obtain c' where
    "lookup_cube w' r = Inr c'" "scaled c' = None" by blast
  then show ?thesis by (intro memmap_guard) auto
qed

text \<open>
  Claim C6. A call of \<^verbatim>\<open>apply_exposure_time_correction\<close> that returns, with either value
  of \<open>undo\<close>, returns a cube object that did not exist before the call and leaves every
  object of the world as it was: the cube it was called on (its unit, mask, world
  coordinates, extra coordinates and references) and every array that existed, so the
  samples and the uncertainty of that cube.
\<close>

theorem apply_leaves_input:
  assumes "apply_exposure_time_correction self undo force w = (Inr r, w')"
  shows "r = length (cubes w) \<and> self < r \<and>
         (\<exists>c. cubes w' = cubes w @ [c]) \<and> (\<exists>as. arrays w' = arrays w @ as) \<and>
         open_files w' = open_files w \<and>
         cubes w' ! self = cubes w ! self \<and>
         (\<forall>a<length (arrays w). arrays w' ! a = arrays w ! a)"
  using apply_exposure_time_correction_result[OF assms]
  by (auto simp: lookup_cube_def grows_def nth_append split: if_splits)

lemma correct_two_arrays:
  assumes "mapS (\<lambda>r. bindS (get_array r) (\<lambda>old_data.
             bindS (liftE (broadcast_op f old_data e)) new_array)) [a, b] w = (Inr rs, w1)"
  shows "\<exists>x y. broadcast_op f (arrays w ! a) e = Inr x \<and>
           broadcast_op f ((arrays w @ [x]) ! b) e = Inr y \<and>
           rs = [length (arrays w), length (arrays w) + 1] \<and>
           w1 = w\<lparr>arrays := arrays w @ [x, y]\<rparr>"
  using assms
  by (auto simp: bindS_def get_array_def liftE_def new_array_def returnS_def
      split: if_splits sum.splits prod.splits)

lemma apply_effective:
  assumes ret: "apply_exposure_time_correction self undo force w = (Inr r, w')"
    and c: "lookup_cube w self = Inr c"
    and e: "exposure_time_array c w = (Inr e, w)"
    and eff: "force \<or> (undo \<longleftrightarrow> carries_inverse_time (unit c))"
  shows "\<exists>x y u. uncertainty c = Some u \<and>
           broadcast_op (if undo then fmul else fdiv) (arrays w ! data c) e = Inr x \<and>
           broadcast_op (if undo then fmul else fdiv) ((arrays w @ [x]) ! u) e = Inr y \<and>
           arrays w' = arrays w @ [x, y] \<and> r = length (cubes w) \<and>
           data (cubes w' ! r) = length (arrays w) \<and>
           uncertainty (cubes w' ! r) = Some (length (arrays w) + 1)"
proof -
  from ret c have sc: "scaled c = Some True"
    by (auto simp: apply_exposure_time_correction_def bindS_cases get_cube_lookup raiseS_def
        split: if_splits)
  from ret c sc e obtain u where u: "uncertainty c = Some u"
    by (auto simp: apply_exposure_time_correction_def bindS_cases get_cube_lookup raiseS_def
        split: option.splits)
  let ?f = "if undo then fmul else fdiv"
  let ?calc = "if undo then uncalculate_exposure_time_correction [data c, u] (unit c) e force
               else calculate_exposure_time_correction [data c, u] (unit c) e force"
  from ret c sc e u obtain new un w1 where
    calc: "?calc w = (Inr (new, un), w1)" and
    fin: "(case new of [d, u] \<Rightarrow> IRISMapCube d (wcs c) (Some u) un (meta c) (mask_array c)
                     (extra_coords c) None | _ \<Rightarrow> raiseS IndexError) w1 = (Inr r, w')"
    by (auto simp: apply_exposure_time_correction_def bindS_cases get_cube_lookup returnS_def
        simp del: split_paired_Ex)
  from calc eff obtain rs where
    m: "mapS (\<lambda>r. bindS (get_array r) (\<lambda>old_data.
             bindS (liftE (broadcast_op ?f old_data e)) new_array)) [data c, u] w = (Inr rs, w1)"
    and new: "new = rs"
    by (cases undo)
      (auto simp: calculate_exposure_time_correction_def
        uncalculate_exposure_time_correction_def bindS_cases returnS_def
        simp del: mapS.simps split: if_splits)
  from correct_two_arrays[OF m] obtain x y where xy:
    "broadcast_op ?f (arrays w ! data c) e = Inr x"
    "broadcast_op ?f ((arrays w @ [x]) ! u) e = Inr y"
    "rs = [length (arrays w), length (arrays w) + 1]"
    "w1 = w\<lparr>arrays := arrays w @ [x, y]\<rparr>" by blast
  from fin new xy(3) have
    "IRISMapCube (length (arrays w)) (wcs c) (Some (length (arrays w) + 1)) un (meta c)
       (mask_array c) (extra_coords c) None w1 = (Inr r, w')" by simp
  from IRISMapCube_returns[OF this] xy(4) have
    "r = length (cubes w)" "arrays w' = arrays w @ [x, y]"
    "data (cubes w' ! r) = length (arrays w)"
    "uncertainty (cubes w' ! r) = Some (length (arrays w) + 1)"
    by simp_all
  with u xy(1,2) show ?thesis by blast
qed

text \<open>
  Claim C4. For a scaled cube whose exposure times are a vector, lines 185 to 196 leave
  the vector of seconds as it is for a sample array of one axis, give it one more axis of
  length 1 for two axes and two more for three axes; for more than three axes the call
  raises the ValueError on the dimensions and changes nothing. With one exposure time per
  frame, a call that returns and is not skipped stores new arrays in which every sample
  and every uncertainty of frame \<open>i\<close> is divided (multiplied, for an undo) by the
  exposure time of frame \<open>i\<close>, whatever the other axes are.
\<close>

theorem exposure_time_broadcast_by_rank:
  assumes "lookup_cube w self = Inr c" and "scaled c = Some True"
    and "map_of (extra_coords c) ''EXPOSURE TIME'' = Some (ax, v)"
    and "\<not> np_isscalar v" and "quantity_seconds v = Inr t"
    and "data c < length (arrays w)"
  shows "shape t = [length (elems t)] \<and>
     (ndim (arrays w ! data c) = 1 \<longrightarrow> exposure_time_array c w = (Inr t, w)) \<and>
     (ndim (arrays w ! data c) = 2 \<longrightarrow>
        exposure_time_array c w = (Inr (t\<lparr>shape := shape t @ [1]\<rparr>), w)) \<and>
     (ndim (arrays w ! data c) = 3 \<longrightarrow>
        exposure_time_array c w = (Inr (t\<lparr>shape := shape t @ [1, 1]\<rparr>), w)) \<and>
     (3 < ndim (arrays w ! data c) \<longrightarrow>
        apply_exposure_time_correction self undo force w =
          (Inl (ValueError ''IRISMapCube dimensions must be 2 or 3''), w)) \<and>
     (\<forall>r w' rest. apply_exposure_time_correction self undo force w = (Inr r, w') \<longrightarrow>
        (force \<or> (undo \<longleftrightarrow> carries_inverse_time (unit c))) \<longrightarrow>
        shape (arrays w ! data c) = length (elems t) # rest \<longrightarrow>
        length (elems (arrays w ! data c)) = prod_list (shape (arrays w ! data c)) \<longrightarrow>
        r = length (cubes w) \<and> data (cubes w' ! r) = length (arrays w) \<and>
        arrays w' ! length (arrays w) =
          \<lparr>shape = shape (arrays w ! data c),
           elems = map2 (if undo then fmul else fdiv) (elems (arrays w ! data c))
                     (concat (map (replicate (prod_list rest)) (elems t)))\<rparr> \<and>
        (\<forall>u. uncertainty c = Some u \<longrightarrow> u < length (arrays w) \<longrightarrow>
           shape (arrays w ! u) = shape (arrays w ! data c) \<longrightarrow>
           length (elems (arrays w ! u)) = prod_list (shape (arrays w ! u)) \<longrightarrow>
           uncertainty (cubes w' ! r) = Some (length (arrays w) + 1) \<and>
           arrays w' ! (length (arrays w) + 1) =
             \<lparr>shape = shape (arrays w ! u),
              elems = map2 (if undo then fmul else fdiv) (elems (arrays w ! u))
                        (concat (map (replicate (prod_list rest)) (elems t)))\<rparr>))"
proof -
  let ?d = "arrays w ! data c"
  let ?f = "if undo then fmul else fdiv"
  have st: "shape t = [length (elems t)]"
    using assms(4,5) by (cases v) (auto split: if_splits option.splits)
  have eta: "exposure_time_array c w =
      (if ndim ?d = 1 then (Inr t, w)
       else if ndim ?d = 2 then (Inr (newaxes 1 t), w)
       else if ndim ?d = 3 then (Inr (newaxes 2 t), w)
       else (Inl (ValueError ''IRISMapCube dimensions must be 2 or 3''), w))"
    using assms(3-6)
    by (simp add: exposure_time_array_def bindS_def liftE_def get_array_def returnS_def raiseS_def)
  have first: "shape t = [length (elems t)] \<and>
     (ndim ?d = 1 \<longrightarrow> exposure_time_array c w = (Inr t, w)) \<and>
     (ndim ?d = 2 \<longrightarrow> exposure_time_array c w = (Inr (t\<lparr>shape := shape t @ [1]\<rparr>), w)) \<and>
     (ndim ?d = 3 \<longrightarrow> exposure_time_array c w = (Inr (t\<lparr>shape := shape t @ [1, 1]\<rparr>), w)) \<and>
     (3 < ndim ?d \<longrightarrow>
        apply_exposure_time_correction self undo force w =
          (Inl (ValueError ''IRISMapCube dimensions must be 2 or 3''), w))"
    using st eta assms(1,2)
    by (simp add: apply_exposure_time_correction_def bindS_def get_cube_lookup newaxes_def
        numeral_2_eq_2)
  have second: "r = length (cubes w) \<and> data (cubes w' ! r) = length (arrays w) \<and>
        arrays w' ! length (arrays w) =
          \<lparr>shape = shape ?d,
           elems = map2 ?f (elems ?d) (concat (map (replicate (prod_list rest)) (elems t)))\<rparr> \<and>
        (\<forall>u. uncertainty c = Some u \<longrightarrow> u < length (arrays w) \<longrightarrow>
           shape (arrays w ! u) = shape ?d \<longrightarrow>
           length (elems (arrays w ! u)) = prod_list (shape (arrays w ! u)) \<longrightarrow>
           uncertainty (cubes w' ! r) = Some (length (arrays w) + 1) \<and>
           arrays w' ! (length (arrays w) + 1) =
             \<lparr>shape = shape (arrays w ! u),
              elems = map2 ?f (elems (arrays w ! u))
                        (concat (map (replicate (prod_list rest)) (elems t)))\<rparr>)"
    if ret: "apply_exposure_time_correction self undo force w = (Inr r, w')"
      and eff: "force \<or> (undo \<longleftrightarrow> carries_inverse_time (unit c))"
      and sh: "shape ?d = length (elems t) # rest"
      and len: "length (elems ?d) = prod_list (shape ?d)"
    for r w' rest
  proof -
    let ?e = "\<lparr>shape = length (elems t) # replicate (length rest) 1, elems = elems t\<rparr>"
    have rank: "ndim ?d = Suc (length rest)" using sh by (simp add: ndim_def)
    have "ndim ?d = 1 \<or> ndim ?d = 2 \<or> ndim ?d = 3"
    proof (rule ccontr)
      assume "\<not> (ndim ?d = 1 \<or> ndim ?d = 2 \<or> ndim ?d = 3)"
      with eta have "exposure_time_array c w =
          (Inl (ValueError ''IRISMapCube dimensions must be 2 or 3''), w)" by simp
      with ret assms(1,2) show False
        by (simp add: apply_exposure_time_correction_def bindS_def get_cube_lookup)
    qed
    with rank have "length rest = 0 \<or> length rest = 1 \<or> length rest = 2" by auto
    with eta rank st have e: "exposure_time_array c w = (Inr ?e, w)"
      by (cases t) (auto simp: newaxes_def numeral_2_eq_2)
    from apply_effective[OF ret assms(1) e eff] obtain x y u where a:
      "uncertainty c = Some u"
      "broadcast_op ?f ?d ?e = Inr x"
      "broadcast_op ?f ((arrays w @ [x]) ! u) ?e = Inr y"
      "arrays w' = arrays w @ [x, y]" "r = length (cubes w)"
      "data (cubes w' ! r) = length (arrays w)"
      "uncertainty (cubes w' ! r) = Some (length (arrays w) + 1)" by blast
    from a(2) broadcast_op_frames[OF sh len, of ?f]
    have x: "x = \<lparr>shape = shape ?d,
        elems = map2 ?f (elems ?d) (concat (map (replicate (prod_list rest)) (elems t)))\<rparr>"
      by simp
    have y: "y = \<lparr>shape = shape (arrays w ! u),
              elems = map2 ?f (elems (arrays w ! u))
                        (concat (map (replicate (prod_list rest)) (elems t)))\<rparr>"
      if "u < length (arrays w)" "shape (arrays w ! u) = shape ?d"
        "length (elems (arrays w ! u)) = prod_list (shape (arrays w ! u))"
    proof -
      from that(1) have "(arrays w @ [x]) ! u = arrays w ! u" by (simp add: nth_append)
      with a(3) have "broadcast_op ?f (arrays w ! u) ?e = Inr y" by simp
      moreover from that(2) sh have "shape (arrays w ! u) = length (elems t) # rest" by simp
      from broadcast_op_frames[OF this that(3), of ?f]
      have "broadcast_op ?f (arrays w ! u) ?e = Inr \<lparr>shape = shape (arrays w ! u),
              elems = map2 ?f (elems (arrays w ! u))
                        (concat (map (replicate (prod_list rest)) (elems t)))\<rparr>" .
      ultimately show ?thesis by simp
    qed
    from a(4) have "arrays w' ! length (arrays w) = x"
      "arrays w' ! (length (arrays w) + 1) = y" by (simp_all add: nth_append)
    with a(1,5,6,7) x y show ?thesis by auto
  qed
  from first second show ?thesis by blast
qed

lemma corrected_world_eval:
  "apply_exposure_time_correction 0 False False scaled_world = (Inr 1, corrected_world)"
  by (simp add: corrected_world_def scaled_world_eval eval_defs)

lemma corrected_world_arrays:
  "arrays corrected_world =
     [\<lparr>shape = [2, 1, 1], elems = [NaN, Fin 4]\<rparr>,
      \<lparr>shape = [2, 1, 1], elems = [NaN, Fin (sqrt 1368 / 18)]\<rparr>,
      \<lparr>shape = [2, 1, 1], elems = [NaN, Fin 1]\<rparr>,
      \<lparr>shape = [2, 1, 1], elems = [NaN, Fin (sqrt 1368 / 72)]\<rparr>]"
  by (simp add: corrected_world_def scaled_world_eval eval_defs)

lemma undone_world_eval:
  "apply_exposure_time_correction 0 True True scaled_world = (Inr 1, undone_world)"
  by (simp add: undone_world_def scaled_world_eval eval_defs)

lemma undone_world_arrays:
  "arrays undone_world =
     [\<lparr>shape = [2, 1, 1], elems = [NaN, Fin 4]\<rparr>,
      \<lparr>shape = [2, 1, 1], elems = [NaN, Fin (sqrt 1368 / 18)]\<rparr>,
      \<lparr>shape = [2, 1, 1], elems = [NaN, Fin 16]\<rparr>,
      \<lparr>shape = [2, 1, 1], elems = [NaN, Fin (sqrt 1368 * 4 / 18)]\<rparr>]"
  by (simp add: undone_world_def scaled_world_eval eval_defs)

theorem apply_leaves_input_witness:
  "apply_exposure_time_correction 0 False False scaled_world = (Inr 1, corrected_world) \<and>
   apply_exposure_time_correction 0 True True scaled_world = (Inr 1, undone_world) \<and>
   (1::nat) = length (cubes scaled_world) \<and> (0::nat) < 1 \<and>
   (\<exists>c. cubes corrected_world = cubes scaled_world @ [c]) \<and>
   (\<exists>c. cubes undone_world = cubes scaled_world @ [c]) \<and>
   (\<exists>as. arrays corrected_world = arrays scaled_world @ as) \<and>
   (\<exists>as. arrays undone_world = arrays scaled_world @ as) \<and>
   open_files corrected_world = open_files scaled_world \<and>
   open_files undone_world = open_files scaled_world \<and>
   cubes corrected_world ! 0 = cubes scaled_world ! 0 \<and>
   cubes undone_world ! 0 = cubes scaled_world ! 0 \<and>
   arrays corrected_world ! 0 = arrays scaled_world ! 0 \<and>
   arrays corrected_world ! 1 = arrays scaled_world ! 1 \<and>
   arrays undone_world ! 0 = arrays scaled_world ! 0 \<and>
   arrays undone_world ! 1 = arrays scaled_world ! 1"
  using apply_leaves_input [OF corrected_world_eval] apply_leaves_input [OF undone_world_eval]
    corrected_world_eval undone_world_eval
  by (simp add: scaled_world_eval)

text \<open>
  Claim C5. The cube of the small observation is corrected once; the cube that call
  returns has no \<open>scaled\<close> flag (line 205 does not pass it on), so a second correction
  and an undo both raise the ValueError of the memmap check instead of returning a cube.
\<close>

theorem second_correction_raises:
  "\<exists>r w1. apply_exposure_time_correction 0 False False scaled_world = (Inr r, w1) \<and>
     apply_exposure_time_correction r False False w1 =
       (Inl (ValueError ''This method is not available as you are using memmap''), w1) \<and>
     apply_exposure_time_correction r True False w1 =
       (Inl (ValueError ''This method is not available as you are using memmap''), w1)"
  using corrected_world_eval apply_twice_raises [OF corrected_world_eval] by blast

lemma rank2_corrected_world_eval:
  "apply_exposure_time_correction 0 False False rank2_world = (Inr 1, rank2_corrected_world)"
  by (simp add: rank2_corrected_world_def rank2_world_def eval_defs)

lemma rank1_undone_world_eval:
  "apply_exposure_time_correction 0 True True rank1_world = (Inr 1, rank1_undone_world)"
  by (simp add: rank1_undone_world_def rank1_world_def eval_defs)

theorem exposure_time_broadcast_by_rank_witness:
  "exposure_time_array (cubes scaled_world ! 0) scaled_world =
     (Inr \<lparr>shape = [2, 1, 1], elems = [Fin 2, Fin 4]\<rparr>, scaled_world) \<and>
   apply_exposure_time_correction 0 False False scaled_world = (Inr 1, corrected_world) \<and>
   arrays corrected_world ! 2 = \<lparr>shape = [2, 1, 1], elems = [NaN, Fin 1]\<rparr> \<and>
   arrays corrected_world ! 3 = \<lparr>shape = [2, 1, 1], elems = [NaN, Fin (sqrt 1368 / 72)]\<rparr> \<and>
   quantity_seconds (CQuantity [Fin 1, Fin 2] minute) =
     Inr \<lparr>shape = [2], elems = [Fin 60, Fin 120]\<rparr> \<and>
   apply_exposure_time_correction 0 False False rank2_world = (Inr 1, rank2_corrected_world) \<and>
   arrays rank2_corrected_world ! 2 =
     \<lparr>shape = [2, 3], elems = [Fin 1, Fin 2, Fin 3, Fin 1, Fin 2, Fin 3]\<rparr> \<and>
   arrays rank2_corrected_world ! 3 =
     \<lparr>shape = [2, 3],
      elems = [Fin (1 / 10), Fin (1 / 10), Fin (1 / 10), Fin (1 / 10), Fin (1 / 10), Fin (1 / 10)]\<rparr> \<and>
   apply_exposure_time_correction 0 True True rank1_world = (Inr 1, rank1_undone_world) \<and>
   arrays rank1_undone_world ! 2 = \<lparr>shape = [2], elems = [Fin 12, Fin 32]\<rparr> \<and>
   arrays rank1_undone_world ! 3 = \<lparr>shape = [2], elems = [Fin 4, Fin 8]\<rparr> \<and>
   ndim (arrays rank4_world ! 0) = 4 \<and>
   apply_exposure_time_correction 0 False False rank4_world =
     (Inl (ValueError ''IRISMapCube dimensions must be 2 or 3''), rank4_world)"
proof -
  have v: "\<not> np_isscalar (CVector [Fin 2, Fin 4])"
    "quantity_seconds (CVector [Fin 2, Fin 4]) = Inr \<lparr>shape = [2], elems = [Fin 2, Fin 4]\<rparr>"
    "\<not> np_isscalar (CQuantity [Fin 1, Fin 2] minute)"
    "quantity_seconds (CQuantity [Fin 1, Fin 2] minute) =
       Inr \<lparr>shape = [2], elems = [Fin 60, Fin 120]\<rparr>"
    by (simp_all add: minute_def)
  have a: "lookup_cube scaled_world 0 = Inr (cubes scaled_world ! 0)"
    "scaled (cubes scaled_world ! 0) = Some True"
    "map_of (extra_coords (cubes scaled_world ! 0)) ''EXPOSURE TIME'' =
       Some (Some 0, CVector [Fin 2, Fin 4])"
    "data (cubes scaled_world ! 0) < length (arrays scaled_world)"
    by (simp_all add: scaled_world_eval lookup_cube_def)
  have b: "lookup_cube rank4_world 0 = Inr (cubes rank4_world ! 0)"
    "scaled (cubes rank4_world ! 0) = Some True"
    "map_of (extra_coords (cubes rank4_world ! 0)) ''EXPOSURE TIME'' =
       Some (Some 0, CVector [Fin 2, Fin 4])"
    "data (cubes rank4_world ! 0) < length (arrays rank4_world)"
    by (simp_all add: rank4_world_def lookup_cube_def)
  have c: "lookup_cube rank2_world 0 = Inr (cubes rank2_world ! 0)"
    "scaled (cubes rank2_world ! 0) = Some True"
    "map_of (extra_coords (cubes rank2_world ! 0)) ''EXPOSURE TIME'' =
       Some (Some 0, CQuantity [Fin 1, Fin 2] minute)"
    "data (cubes rank2_world ! 0) < length (arrays rank2_world)"
    by (simp_all add: rank2_world_def lookup_cube_def)
  have d: "lookup_cube rank1_world 0 = Inr (cubes rank1_world ! 0)"
    "scaled (cubes rank1_world ! 0) = Some True"
    "map_of (extra_coords (cubes rank1_world ! 0)) ''EXPOSURE TIME'' =
       Some (Some 0, CVector [Fin 2, Fin 4])"
    "data (cubes rank1_world ! 0) < length (arrays rank1_world)"
    by (simp_all add: rank1_world_def lookup_cube_def)
  have 1: "exposure_time_array (cubes scaled_world ! 0) scaled_world =
      (Inr \<lparr>shape = [2, 1, 1], elems = [Fin 2, Fin 4]\<rparr>, scaled_world) \<and>
    arrays corrected_world ! 2 = \<lparr>shape = [2, 1, 1], elems = [NaN, Fin 1]\<rparr> \<and>
    arrays corrected_world ! 3 = \<lparr>shape = [2, 1, 1], elems = [NaN, Fin (sqrt 1368 / 72)]\<rparr>"
    using exposure_time_broadcast_by_rank [OF a(1-3) v(1,2) a(4), of False False]
      corrected_world_eval
    apply (elim conjE)
    apply (drule spec [of _ 1], drule spec [of _ corrected_world], drule spec [of _ "[1, 1]"])
    apply (simp add: scaled_world_eval ndim_def carries_inverse_time_def eval_nat_numeral)
    done
  have 2: "arrays rank2_corrected_world ! 2 =
      \<lparr>shape = [2, 3], elems = [Fin 1, Fin 2, Fin 3, Fin 1, Fin 2, Fin 3]\<rparr> \<and>
    arrays rank2_corrected_world ! 3 =
      \<lparr>shape = [2, 3],
       elems = [Fin (1 / 10), Fin (1 / 10), Fin (1 / 10), Fin (1 / 10), Fin (1 / 10),
                Fin (1 / 10)]\<rparr>"
    using exposure_time_broadcast_by_rank [OF c(1-3) v(3,4) c(4), of False False]
      rank2_corrected_world_eval
    apply (elim conjE)
    apply (drule spec [of _ 1], drule spec [of _ rank2_corrected_world], drule spec [of _ "[3]"])
    apply (simp add: rank2_world_def ndim_def carries_inverse_time_def eval_nat_numeral)
    done
  have 3: "arrays rank1_undone_world ! 2 = \<lparr>shape = [2], elems = [Fin 12, Fin 32]\<rparr> \<and>
    arrays rank1_undone_world ! 3 = \<lparr>shape = [2], elems = [Fin 4, Fin 8]\<rparr>"
    using exposure_time_broadcast_by_rank [OF d(1-3) v(1,2) d(4), of True True]
      rank1_undone_world_eval
    apply (elim conjE)
    apply (drule spec [of _ 1], drule spec [of _ rank1_undone_world], drule spec [of _ "[]"])
    apply (simp add: rank1_world_def ndim_def eval_nat_numeral)
    done
  have 4: "ndim (arrays rank4_world ! 0) = 4 \<and>
    apply_exposure_time_correction 0 False False rank4_world =
      (Inl (ValueError ''IRISMapCube dimensions must be 2 or 3''), rank4_world)"
    using exposure_time_broadcast_by_rank [OF b(1-3) v(1,2) b(4), of False False]
    by (simp add: rank4_world_def ndim_def)
  from 1 2 3 4 v(4) corrected_world_eval rank2_corrected_world_eval rank1_undone_world_eval
  show ?thesis by simp
qed

section \<open>Sequences\<close>

lemma mapS_get_cube:
  "\<forall>r\<in>set dl. r < length (cubes w) \<Longrightarrow>
     mapS get_cube dl w = (Inr (map ((!) (cubes w)) dl), w)"
  by (induction dl) (simp_all add: returnS_def bindS_def get_cube_def)

lemma mapE_total:
  "\<forall>x\<in>set xs. f x = Inr (g x) \<Longrightarrow> mapE f xs = Inr (map g xs)"
  by (induction xs) (simp_all add: bindE_def)

text \<open>
  Claim C7. For a non-empty list of cubes that each carry an \<^verbatim>\<open>OBSID\<close> entry,
  \<^verbatim>\<open>IRISMapCubeSequence\<close> raises its ValueError exactly when the \<^verbatim>\<open>OBSID\<close> of some
  cube differs (Python's \<^verbatim>\<open>!=\<close>) from that of the first cube; otherwise it returns the
  sequence that holds the cubes in the order given, and the world is unchanged.
\<close>

theorem sequence_same_obsid:
  assumes "dl \<noteq> []"
    and "\<forall>r\<in>set dl. r < length (cubes w) \<and> meta (cubes w ! r) ''OBSID'' = Some (oid r)"
  shows "IRISMapCubeSequence dl m ax w =
     (if \<exists>r\<in>set dl. py_ne (oid r) (oid (hd dl)) then
        (Inl (ValueError ''Constituent IRISMapCube objects must have same value of OBSID in its meta.''), w)
      else (Inr \<lparr>data_list = dl, seq_meta = m, common_axis = ax\<rparr>, w))"
proof -
  from assms obtain r0 rs where dl: "dl = r0 # rs" by (cases dl) auto
  let ?cs = "map ((!) (cubes w)) dl"
  have cs: "mapS get_cube dl w = (Inr ?cs, w)"
    using assms(2) by (intro mapS_get_cube) auto
  let ?f = "\<lambda>c. bindE (meta_OBSID c) (\<lambda>a. bindE (meta_OBSID (cubes w ! r0)) (\<lambda>b. Inr (py_ne a b)))"
  let ?g = "\<lambda>c. py_ne (the (meta c ''OBSID'')) (oid r0)"
  have "\<forall>c\<in>set ?cs. ?f c = Inr (?g c)"
    using assms(2) dl by (auto simp: meta_OBSID_def bindE_def)
  then have "mapE ?f ?cs = Inr (map ?g ?cs)"
    by (rule mapE_total)
  moreover have "obsid_differs ?cs = mapE ?f ?cs"
    using dl by (simp add: obsid_differs_def)
  moreover have "map ?g ?cs = map (\<lambda>r. py_ne (oid r) (oid r0)) dl"
    using assms(2) by simp
  ultimately have fl: "obsid_differs ?cs = Inr (map (\<lambda>r. py_ne (oid r) (oid r0)) dl)" by simp
  show ?thesis
    using cs fl dl
    by (simp add: IRISMapCubeSequence_def bindS_def liftE_def raiseS_def returnS_def
        list_ex_iff del: mapS.simps) 
qed

theorem sequence_same_obsid_witness:
  "IRISMapCubeSequence [0, 1] None 0 obsid_world =
     (Inr \<lparr>data_list = [0, 1], seq_meta = None, common_axis = 0\<rparr>, obsid_world) \<and>
   IRISMapCubeSequence [0, 1, 2] None 0 obsid_world =
     (Inl (ValueError ''Constituent IRISMapCube objects must have same value of OBSID in its meta.''), obsid_world)"
proof -
  let ?oid = "\<lambda>r::nat. PVal (HInt (if r = 2 then 8 else 7))"
  have a: "[0, 1] \<noteq> ([]::nat list)" "[0, 1, 2] \<noteq> ([]::nat list)" by simp_all
  have b: "\<forall>r\<in>set [0, 1]. r < length (cubes obsid_world) \<and>
            meta (cubes obsid_world ! r) ''OBSID'' = Some (?oid r)"
    by (simp add: obsid_world_def)
  have c: "\<forall>r\<in>set [0, 1, 2]. r < length (cubes obsid_world) \<and>
            meta (cubes obsid_world ! r) ''OBSID'' = Some (?oid r)"
    by (simp add: obsid_world_def)
  show ?thesis
    using sequence_same_obsid [OF a(1) b, of None 0] sequence_same_obsid [OF a(2) c, of None 0]
    by simp
qed

section \<open>Reading: one file, then the loop\<close>

lemma set_where_shape: "shape (set_where d c v) = shape d"
  by (simp add: set_where_def)

lemma normalize_scaled:
  assumes "normalize_bad_pixels ev False r r w = (Inr (msk, sc, un, unc), w')"
  shows "r < length (arrays w) \<and>
    (\<exists>u. sji_uncertainty (DN_UNIT_SJI (iris_tools ev)) (READOUT_NOISE_SJI (iris_tools ev))
            (set_where (arrays w ! r) (eq_scalar (arrays w ! r) BAD_PIXEL_VALUE_SCALED) NaN) = Inr u \<and>
         w' = w\<lparr>arrays := (arrays w)[r := set_where (arrays w ! r)
                    (eq_scalar (arrays w ! r) BAD_PIXEL_VALUE_SCALED) NaN] @ [u]\<rparr>) \<and>
    msk = Some (eq_scalar (set_where (arrays w ! r) (eq_scalar (arrays w ! r) BAD_PIXEL_VALUE_SCALED) NaN)
                  BAD_PIXEL_VALUE_SCALED) \<and>
    sc \<and> un = DN_UNIT_SJI (iris_tools ev) \<and> unc = Some (length (arrays w))"
  using assms
  by (auto simp: normalize_bad_pixels_def bindS_def get_array_def put_array_def liftE_def
      new_array_def returnS_def split: if_splits sum.splits)

lemma normalize_memmap:
  assumes "normalize_bad_pixels ev True r r w = (Inr (msk, sc, un, unc), w')"
  shows "r < length (arrays w) \<and>
    w' = w\<lparr>arrays := (arrays w)[r := set_where (arrays w ! r)
                    (eq_scalar (arrays w ! r) BAD_PIXEL_VALUE_UNSCALED) (Fin 0)]\<rparr> \<and>
    msk = None \<and> \<not> sc \<and> un = DN_UNIT_SJI_UNSCALED (iris_tools ev) \<and> unc = None"
  using assms
  by (auto simp: normalize_bad_pixels_def bindS_def get_array_def put_array_def liftE_def
      new_array_def returnS_def split: if_splits sum.splits)

lemma normalize_files:
  "normalize_bad_pixels ev mm r r w = (res, w') \<Longrightarrow>
     open_files w' = open_files w \<and> cubes w' = cubes w"
  by (auto simp: normalize_bad_pixels_def bindS_def get_array_def put_array_def liftE_def
      new_array_def returnS_def split: if_splits sum.splits)

lemma read_cube_files:
  assumes "read_cube ev mm h w = (Inl e, w')"
  shows "open_files w' = open_files w"
proof -
  from assms consider
      (a) "normalize_bad_pixels ev mm (hdu0_data h) (hdu0_data h) w = (Inl e, w')"
    | (b) x w1 where "normalize_bad_pixels ev mm (hdu0_data h) (hdu0_data h) w = (Inr x, w1)"
        and "open_files w' = open_files w1"
    by (auto simp: read_cube_def bindS_cases liftE_def get_array_def IRISMapCube_def returnS_def
        split: sum.splits if_splits prod.splits simp del: split_paired_Ex)
  then show ?thesis
    by cases (auto dest: normalize_files)
qed

lemma read_cube_ok:
  assumes "read_cube ev mm h w = (Inr (c, m), w')"
    and "hdu0_data h < length (arrays w)"
    and "arrays w ! hdu0_data h = data0 f" and "hdu0_header h = header0 f" and "hdu1_of h = hdu1 f"
  shows "\<exists>cb d. c = length (cubes w) \<and> cubes w' = cubes w @ [cb] \<and>
           take (length (arrays w)) (arrays w') = (arrays w)[hdu0_data h := d] \<and>
           open_files w' = open_files w \<and> meta cb = m \<and> data cb = hdu0_data h \<and>
           file_cube ev mm f w' cb"
proof (cases mm)
  case True
  from assms(1) True obtain msk sc un unc w1 ec where
    n: "normalize_bad_pixels ev True (hdu0_data h) (hdu0_data h) w = (Inr (msk, sc, un, unc), w1)"
    and ec: "read_extra_coords ev (hdu0_header h) (hdu1_of h) = Inr ec"
    and rest: "bindS (get_array (hdu0_data h)) (\<lambda>d.
       bindS (liftE (read_meta ev (hdu0_header h) (shape d))) (\<lambda>m.
       bindS (IRISMapCube (hdu0_data h) (WCS (hdu0_header h)) unc un m msk ec (Some sc)) (\<lambda>c.
       returnS (c, m)))) w1 = (Inr (c, m), w')"
    by (auto simp: read_cube_def bindS_cases liftE_def simp del: split_paired_Ex)
  from normalize_memmap[OF n] rest ec assms(2-5) True show ?thesis
    by (auto simp: bindS_def get_array_def liftE_def IRISMapCube_def returnS_def file_cube_def
        set_where_shape nth_append split: if_splits sum.splits)
next
  case False
  from assms(1) False obtain msk sc un unc w1 ec where
    n: "normalize_bad_pixels ev False (hdu0_data h) (hdu0_data h) w = (Inr (msk, sc, un, unc), w1)"
    and ec: "read_extra_coords ev (hdu0_header h) (hdu1_of h) = Inr ec"
    and rest: "bindS (get_array (hdu0_data h)) (\<lambda>d.
       bindS (liftE (read_meta ev (hdu0_header h) (shape d))) (\<lambda>m.
       bindS (IRISMapCube (hdu0_data h) (WCS (hdu0_header h)) unc un m msk ec (Some sc)) (\<lambda>c.
       returnS (c, m)))) w1 = (Inr (c, m), w')"
    by (auto simp: read_cube_def bindS_cases liftE_def simp del: split_paired_Ex)
  from normalize_scaled[OF n] rest ec assms(2-5) False show ?thesis
    by (auto simp: bindS_def get_array_def liftE_def IRISMapCube_def returnS_def file_cube_def
        set_where_shape nth_append split: if_splits sum.splits)
qed

lemma file_cube_grow:
  "file_cube ev mm f w cb \<Longrightarrow> arrays w1 = arrays w @ as \<Longrightarrow> file_cube ev mm f w1 cb"
  by (auto simp: file_cube_def nth_append split: option.splits if_splits)

lemma read_file_ok:
  assumes "read_file ev mm name w = (Inr (c, m), w')"
  shows "\<exists>f cb as. fits_files ev name = Some f \<and> c = length (cubes w) \<and>
           cubes w' = cubes w @ [cb] \<and> arrays w' = arrays w @ as \<and>
           open_files w' = held mm [name] @ open_files w \<and> meta cb = m \<and>
           file_cube ev mm f w' cb"
proof -
  from assms obtain f where f: "fits_files ev name = Some f"
    by (cases "fits_files ev name") (auto simp: read_file_def bindS_def fits_open_def)
  let ?h = "\<lparr>hdu_name = name, hdu_memmap = mm, hdu0_header = header0 f, hdu0_data = length (arrays w),
             hdu1_of = hdu1 f\<rparr>"
  let ?w1 = "w\<lparr>arrays := arrays w @ [data0 f], open_files := name # open_files w\<rparr>"
  have unf: "read_file ev mm name w =
      (case read_cube ev mm ?h ?w1 of
         (Inl e, w2) \<Rightarrow> (Inl e, w2)
       | (Inr (c, m), w2) \<Rightarrow>
           (Inr (c, m), if mm then w2 else w2\<lparr>open_files := remove1 name (open_files w2)\<rparr>))"
    using f
    by (simp add: read_file_def bindS_def fits_open_def hdulist_close_def returnS_def
        split: prod.splits sum.splits)
  from assms obtain w2 where rc: "read_cube ev mm ?h ?w1 = (Inr (c, m), w2)"
    and w': "w' = (if mm then w2 else w2\<lparr>open_files := remove1 name (open_files w2)\<rparr>)"
    unfolding unf by (auto split: prod.splits sum.splits)
  have "\<exists>cb d. c = length (cubes ?w1) \<and> cubes w2 = cubes ?w1 @ [cb] \<and>
           take (length (arrays ?w1)) (arrays w2) = (arrays ?w1)[hdu0_data ?h := d] \<and>
           open_files w2 = open_files ?w1 \<and> meta cb = m \<and> data cb = hdu0_data ?h \<and>
           file_cube ev mm f w2 cb"
    by (rule read_cube_ok[OF rc]) simp_all
  then obtain cb d where 0:
    "c = length (cubes w)" "cubes w2 = cubes w @ [cb]"
    "take (Suc (length (arrays w))) (arrays w2) = arrays w @ [d]"
    "open_files w2 = name # open_files w" "meta cb = m" "file_cube ev mm f w2 cb"
    by auto
  have "\<exists>as. arrays w2 = arrays w @ as"
  proof -
    have "take (Suc (length (arrays w))) (arrays w2) @
          drop (Suc (length (arrays w))) (arrays w2) = arrays w2"
      by simp
    then show ?thesis unfolding 0(3) by (metis append_assoc)
  qed
  then obtain as where as: "arrays w2 = arrays w @ as" by blast
  note 1 = 0(1,2) as 0(4,5,6)
  have "file_cube ev mm f w' cb"
    by (rule file_cube_grow[OF 1(6), where as="[]"]) (simp add: w')
  then show ?thesis
    using f w' 1(1,2,3,4,5)
    by (intro exI[of _ f] exI[of _ cb] exI[of _ as]) (simp add: held_def)
qed

lemma read_file_raises:
  assumes "read_file ev mm name w = (Inl e, w')"
  shows "case fits_files ev name of None \<Rightarrow> e = FileNotFoundError name \<and> w' = w
         | Some f \<Rightarrow> open_files w' = name # open_files w"
proof (cases "fits_files ev name")
  case None
  with assms show ?thesis
    by (simp add: read_file_def bindS_def fits_open_def)
next
  case (Some f)
  let ?h = "\<lparr>hdu_name = name, hdu_memmap = mm, hdu0_header = header0 f, hdu0_data = length (arrays w),
             hdu1_of = hdu1 f\<rparr>"
  let ?w1 = "w\<lparr>arrays := arrays w @ [data0 f], open_files := name # open_files w\<rparr>"
  have unf: "read_file ev mm name w =
      (case read_cube ev mm ?h ?w1 of
         (Inl e, w2) \<Rightarrow> (Inl e, w2)
       | (Inr (c, m), w2) \<Rightarrow>
           (Inr (c, m), if mm then w2 else w2\<lparr>open_files := remove1 name (open_files w2)\<rparr>))"
    using Some
    by (simp add: read_file_def bindS_def fits_open_def hdulist_close_def returnS_def
        split: prod.splits sum.splits)
  from assms have "read_cube ev mm ?h ?w1 = (Inl e, w')"
    unfolding unf by (auto split: prod.splits sum.splits)
  from read_cube_files[OF this] Some show ?thesis by simp
qed

lemma read_files_ok:
  "read_files ev mm fs acc m w = (Inr (cs, m'), w') \<Longrightarrow>
     \<exists>cbs as. cubes w' = cubes w @ cbs \<and> arrays w' = arrays w @ as \<and>
       open_files w' = held mm fs @ open_files w \<and> length cbs = length fs \<and>
       cs = acc @ [length (cubes w)..<length (cubes w) + length fs] \<and>
       (\<forall>i<length fs. \<exists>f. fits_files ev (fs ! i) = Some f \<and> file_cube ev mm f w' (cbs ! i)) \<and>
       m' = (if fs = [] then m else Some (meta (last cbs)))"
proof (induction fs arbitrary: acc m w)
  case Nil
  then show ?case by (simp add: returnS_def held_def)
next
  case (Cons name rest)
  from Cons.prems obtain c m1 w1 where
    rf: "read_file ev mm name w = (Inr (c, m1), w1)" and
    rr: "read_files ev mm rest (acc @ [c]) (Some m1) w1 = (Inr (cs, m'), w')"
    by (auto simp: bindS_cases simp del: split_paired_Ex)
  from read_file_ok[OF rf] obtain f cb as1 where 1:
    "fits_files ev name = Some f" "c = length (cubes w)" "cubes w1 = cubes w @ [cb]"
    "arrays w1 = arrays w @ as1" "open_files w1 = held mm [name] @ open_files w" "meta cb = m1"
    "file_cube ev mm f w1 cb" by blast
  from Cons.IH[OF rr] obtain cbs as where 2:
    "cubes w' = cubes w1 @ cbs" "arrays w' = arrays w1 @ as"
    "open_files w' = held mm rest @ open_files w1"
    "length cbs = length rest"
    "cs = (acc @ [c]) @ [length (cubes w1)..<length (cubes w1) + length rest]"
    "\<forall>i<length rest. \<exists>f. fits_files ev (rest ! i) = Some f \<and> file_cube ev mm f w' (cbs ! i)"
    "m' = (if rest = [] then Some m1 else Some (meta (last cbs)))" by blast
  have fc: "file_cube ev mm f w' cb"
    using 1(7) 2(2) by (rule file_cube_grow)
  have "length (cubes w1) = Suc (length (cubes w))" using 1(3) by simp
  then have cs: "cs = acc @ [length (cubes w)..<length (cubes w) + length (name # rest)]"
    using 1(2) 2(5) by (simp add: upt_conv_Cons del: upt_Suc)
  have all: "\<forall>i<length (name # rest). \<exists>f. fits_files ev ((name # rest) ! i) = Some f \<and>
        file_cube ev mm f w' ((cb # cbs) ! i)"
    using 1(1) fc 2(6) by (auto simp: nth_Cons split: nat.splits)
  have m': "m' = (if name # rest = [] then m else Some (meta (last (cb # cbs))))"
    using 2(7,4) 1(6) by auto
  have "open_files w' = held mm (name # rest) @ open_files w"
    using 1(5) 2(3) by (simp add: held_def)
  then show ?case
    using 1(3,4) 2(1,2,4) cs all m'
    by (intro exI[of _ "cb # cbs"] exI[of _ "as1 @ as"]) simp
qed

section \<open>Reading: the whole call\<close>

lemma mapS_get_cube_snd: "snd (mapS get_cube dl w) = w"
  by (induction dl)
    (auto simp: bindS_def get_cube_def returnS_def split: if_splits sum.splits prod.splits)

lemma mapS_get_cube_world: "mapS get_cube dl w = (r, w') \<Longrightarrow> w' = w"
  using mapS_get_cube_snd[of dl w] by simp

lemma IRISMapCubeSequence_result:
  assumes "IRISMapCubeSequence dl m ax w = (res, w')"
  shows "w' = w \<and> (\<forall>s. res = Inr s \<longrightarrow> s = \<lparr>data_list = dl, seq_meta = m, common_axis = ax\<rparr>)"
proof -
  obtain r1 w1 where g: "mapS get_cube dl w = (r1, w1)" by (cases "mapS get_cube dl w")
  from mapS_get_cube_world[OF g] have "w1 = w" .
  with assms g show ?thesis
    by (auto simp: IRISMapCubeSequence_def bindS_def liftE_def raiseS_def returnS_def
        split: sum.splits if_splits)
qed

lemma read_files_raises:
  "read_files ev mm fs acc m w = (Inl e, w') \<Longrightarrow>
     \<exists>pre name post x w1. fs = pre @ name # post \<and>
       read_files ev mm pre acc m w = (Inr x, w1) \<and> read_file ev mm name w1 = (Inl e, w')"
proof (induction fs arbitrary: acc m w)
  case Nil
  then show ?case by (simp add: returnS_def)
next
  case (Cons name rest)
  from Cons.prems consider
      (a) "read_file ev mm name w = (Inl e, w')"
    | (b) c m1 w1 where "read_file ev mm name w = (Inr (c, m1), w1)"
        "read_files ev mm rest (acc @ [c]) (Some m1) w1 = (Inl e, w')"
    by (auto simp: bindS_cases simp del: split_paired_Ex)
  then show ?case
  proof cases
    case a
    have "read_files ev mm [] acc m w = (Inr (acc, m), w)" by (simp add: returnS_def)
    with a show ?thesis by (metis append_Nil)
  next
    case b
    from Cons.IH[OF b(2)] obtain pre nm post x w2 where 1: "rest = pre @ nm # post"
      "read_files ev mm pre (acc @ [c]) (Some m1) w1 = (Inr x, w2)"
      "read_file ev mm nm w2 = (Inl e, w')" by blast
    from b(1) 1(2) have "read_files ev mm (name # pre) acc m w = (Inr x, w2)"
      by (simp add: bindS_def)
    with 1(1,3) show ?thesis by (metis append_Cons)
  qed
qed

lemma read_iris_unfold:
  "read_iris_sji_level2_fits ev names mm w =
     (case read_files ev mm (names_of names) [] None w of
        (Inl e, w1) \<Rightarrow> (Inl e, w1)
      | (Inr (cs, m), w1) \<Rightarrow>
          if length (names_of names) = 1 then
            (case cs of [] \<Rightarrow> (Inl IndexError, w1) | c # cs' \<Rightarrow> (Inr (ACube c), w1))
          else
            (case m of None \<Rightarrow> (Inl (UnboundLocalError ''meta''), w1)
             | Some m1 \<Rightarrow>
                 (case IRISMapCubeSequence cs (Some m1) 0 w1 of
                    (Inl e, w2) \<Rightarrow> (Inl e, w2)
                  | (Inr s, w2) \<Rightarrow> (Inr (ASequence s), w2))))"
  by (simp add: read_iris_sji_level2_fits_def names_of_def bindS_def raiseS_def returnS_def
      Let_def split: prod.splits sum.splits list.splits option.splits)

lemma read_iris_ok:
  assumes "read_iris_sji_level2_fits ev names mm w = (Inr r, w')"
  shows "\<exists>cbs as. cubes w' = cubes w @ cbs \<and> arrays w' = arrays w @ as \<and>
       open_files w' = held mm (names_of names) @ open_files w \<and>
       length cbs = length (names_of names) \<and>
       names_of names \<noteq> [] \<and>
       result_cubes r = [length (cubes w)..<length (cubes w) + length (names_of names)] \<and>
       (\<forall>i<length (names_of names). \<exists>f. fits_files ev (names_of names ! i) = Some f \<and>
           file_cube ev mm f w' (cbs ! i)) \<and>
       (if length (names_of names) = 1 then r = ACube (length (cubes w))
        else r = ASequence \<lparr>data_list = result_cubes r, seq_meta = Some (meta (last cbs)),
                             common_axis = 0\<rparr>)"
proof -
  let ?fs = "names_of names"
  from assms obtain cs m w1 where rf: "read_files ev mm ?fs [] None w = (Inr (cs, m), w1)"
    unfolding read_iris_unfold by (auto split: prod.splits sum.splits)
  from read_files_ok[OF rf] obtain cbs as where 1:
    "cubes w1 = cubes w @ cbs" "arrays w1 = arrays w @ as"
    "open_files w1 = held mm ?fs @ open_files w"
    "length cbs = length ?fs" "cs = [length (cubes w)..<length (cubes w) + length ?fs]"
    "\<forall>i<length ?fs. \<exists>f. fits_files ev (?fs ! i) = Some f \<and> file_cube ev mm f w1 (cbs ! i)"
    "m = (if ?fs = [] then None else Some (meta (last cbs)))"
    by auto
  show ?thesis
  proof (cases "length ?fs = 1")
    case True
    with assms rf 1(5) have "w' = w1" "r = ACube (length (cubes w))"
      unfolding read_iris_unfold by (auto simp: upt_rec split: list.splits)
    with 1 True show ?thesis
      by (intro exI[of _ cbs] exI[of _ as]) (auto simp: result_cubes_def)
  next
    case False
    with assms rf obtain m1 s where m1: "m = Some m1"
      and sq: "IRISMapCubeSequence cs (Some m1) 0 w1 = (Inr s, w')" and r: "r = ASequence s"
      unfolding read_iris_unfold by (auto split: option.splits prod.splits sum.splits)
    from IRISMapCubeSequence_result[OF sq] have "w' = w1"
      "s = \<lparr>data_list = cs, seq_meta = Some m1, common_axis = 0\<rparr>" by auto
    moreover from m1 1(7) have "?fs \<noteq> []" "m1 = meta (last cbs)" by (auto split: if_splits)
    ultimately show ?thesis
      using 1 False r
      by (intro exI[of _ cbs] exI[of _ as]) (auto simp: result_cubes_def)
  qed
qed

text \<open>
  Claim C8. When \<^verbatim>\<open>read_iris_sji_level2_fits\<close> returns, it returns one cube if it was
  given exactly one path (a string, or a list of one string), and a sequence with as many
  cubes as paths if it was given two or more.
\<close>

theorem one_cube_or_sequence:
  assumes "read_iris_sji_level2_fits ev names memmap w = (Inr r, w')"
  shows "(length (names_of names) = 1 \<longrightarrow> (\<exists>c. r = ACube c \<and> c < length (cubes w'))) \<and>
         (2 \<le> length (names_of names) \<longrightarrow>
            (\<exists>s. r = ASequence s \<and> length (data_list s) = length (names_of names)))"
proof -
  from read_iris_ok[OF assms] obtain cbs as where 1:
    "cubes w' = cubes w @ cbs" "length cbs = length (names_of names)"
    "result_cubes r = [length (cubes w)..<length (cubes w) + length (names_of names)]"
    "if length (names_of names) = 1 then r = ACube (length (cubes w))
     else r = ASequence \<lparr>data_list = result_cubes r, seq_meta = Some (meta (last cbs)),
                          common_axis = 0\<rparr>"
    by blast
  show ?thesis
  proof (cases "length (names_of names) = 1")
    case True
    with 1 show ?thesis by auto
  next
    case False
    with 1(4) have "r = ASequence \<lparr>data_list = result_cubes r,
        seq_meta = Some (meta (last cbs)), common_axis = 0\<rparr>" by simp
    moreover have "length (result_cubes r) = length (names_of names)"
      unfolding 1(3) by simp
    ultimately show ?thesis using False
      by (metis sequence.select_convs(1))
  qed
qed

theorem one_cube_or_sequence_witness:
  "names_of (Str ''a.fits'') = [''a.fits''] \<and>
   read_iris_sji_level2_fits example_env (Str ''a.fits'') False empty_world =
     (Inr (ACube 0), scaled_world) \<and>
   (\<exists>s. fst (read_iris_sji_level2_fits example_env (StrList [''a.fits'', ''b.fits'']) False
              empty_world) = Inr (ASequence s) \<and> length (data_list s) = 2)"
  using one_cube_or_sequence [OF read_a_scaled] one_cube_or_sequence [OF read_pair]
    read_a_scaled read_pair
  by (simp add: names_of_def)



lemma set_where_eq_scalar:
  "set_where d (eq_scalar d s) v = \<lparr>shape = shape d, elems = map (\<lambda>x. if feq x s then v else x) (elems d)\<rparr>"
proof -
  have "map2 (\<lambda>c x. if c then v else x) (map (\<lambda>x. feq x s) xs) xs =
        map (\<lambda>x. if feq x s then v else x) xs" for xs
    by (induction xs) simp_all
  then show ?thesis by (simp add: set_where_def eq_scalar_def)
qed

lemma feq_after_nan: "feq (if feq x s then NaN else x) s = False"
  by (cases "feq x s") simp_all

lemma read_iris_cube:
  assumes "read_iris_sji_level2_fits ev names mm w = (Inr r, w')" and "c \<in> set (result_cubes r)"
  shows "c < length (cubes w') \<and>
         (\<exists>f. fits_files ev (names_of names ! (c - length (cubes w))) = Some f \<and>
              c - length (cubes w) < length (names_of names) \<and>
              file_cube ev mm f w' (cubes w' ! c))"
proof -
  let ?fs = "names_of names"
  from read_iris_ok[OF assms(1)] obtain cbs as where 1:
    "cubes w' = cubes w @ cbs" "length cbs = length ?fs"
    "result_cubes r = [length (cubes w)..<length (cubes w) + length ?fs]"
    "\<forall>i<length ?fs. \<exists>f. fits_files ev (?fs ! i) = Some f \<and> file_cube ev mm f w' (cbs ! i)"
    by blast
  from assms(2) 1(3) have c: "length (cubes w) \<le> c" "c - length (cubes w) < length ?fs"
    by auto
  with 1(4) obtain f where "fits_files ev (?fs ! (c - length (cubes w))) = Some f"
    "file_cube ev mm f w' (cbs ! (c - length (cubes w)))" by blast
  moreover have "cubes w' ! c = cbs ! (c - length (cubes w))"
    using c 1(1) by (simp add: nth_append)
  ultimately show ?thesis using c 1(1,2) by auto
qed

lemma scaled_mask_all_false:
  assumes "read_iris_sji_level2_fits ev names False w = (Inr r, w')"
    and "c \<in> set (result_cubes r)"
  shows "\<exists>m. mask_array (cubes w' ! c) = Some m \<and> (\<forall>b\<in>set (elems m). \<not> b)"
proof -
  from read_iris_cube[OF assms] obtain f where "file_cube ev False f w' (cubes w' ! c)"
    by blast
  then have d: "arrays w' ! data (cubes w' ! c) =
        set_where (data0 f) (eq_scalar (data0 f) BAD_PIXEL_VALUE_SCALED) NaN"
    and m: "mask_array (cubes w' ! c) =
        Some (eq_scalar (arrays w' ! data (cubes w' ! c)) BAD_PIXEL_VALUE_SCALED)"
    by (simp_all add: file_cube_def)
  have "\<forall>b\<in>set (elems (eq_scalar (arrays w' ! data (cubes w' ! c)) BAD_PIXEL_VALUE_SCALED)).
          \<not> b"
    unfolding d set_where_eq_scalar by (simp add: eq_scalar_def feq_after_nan)
  with m show ?thesis by blast
qed

text \<open>
  Claim C1. The first sample of the file \<^verbatim>\<open>a.fits\<close> is the bad-pixel value -200. In
  the cube the reader builds the sample is NaN, but the mask is false there: line 328
  compares the array after line 327 has overwritten the value. Lemma
  \<open>scaled_mask_all_false\<close> shows the mask is false everywhere for every file.
\<close>

theorem mask_misses_bad_pixel:
  "elems (data0 (example_file 7)) = [Fin (- 200), Fin 4] \<and>
   read_iris_sji_level2_fits example_env (Str ''a.fits'') False empty_world =
     (Inr (ACube 0), scaled_world) \<and>
   mask_array (cubes scaled_world ! 0) = Some \<lparr>shape = [2, 1, 1], elems = [False, False]\<rparr> \<and>
   arrays scaled_world ! data (cubes scaled_world ! 0) = \<lparr>shape = [2, 1, 1], elems = [NaN, Fin 4]\<rparr>"
  using read_a_scaled by (simp add: scaled_world_eval example_file_def)

section \<open>The uncertainty of a pixel\<close>

text \<open>
  Lines 334 to 336 in the arithmetic of the model, which does not round: a finite sample
  \<open>v\<close> with readout noise of \<open>r\<close> photons has the uncertainty
  \<open>sqrt (v * k + r\<^sup>2) / k\<close> when the sum under the root is not negative, and
  a sample that is not a number has an uncertainty that is not a number.
\<close>

lemma pixel_uncertainty_exact:
  "0 \<le> v * k + r * r \<Longrightarrow> k \<noteq> 0 \<Longrightarrow>
     pixel_uncertainty k (Fin r) (Fin v) = Fin (sqrt (v * k + r * r) / k)"
  by (simp add: pixel_uncertainty_def)

lemma pixel_uncertainty_nan: "pixel_uncertainty k r NaN = NaN"
  by (simp add: pixel_uncertainty_def)

section \<open>Reading: which files stay open\<close>

text \<open>
  Claim C2, as stated, fails: the table header of \<^verbatim>\<open>broken.fits\<close> has no
  \<^verbatim>\<open>EXPTIMES\<close> card, line 338 raises KeyError, and the file is still open when the
  exception leaves the reader (line 369 is not reached).
\<close>

theorem file_left_open:
  "read_iris_sji_level2_fits example_env (StrList [''a.fits'', ''broken.fits'']) False empty_world =
     (Inl (KeyError ''EXPTIMES''), leaking_world) \<and>
   open_files empty_world = [] \<and> open_files leaking_world = [''broken.fits'']"
  using read_leaking leaking_world_files by (simp add: empty_world_def)

text \<open>
  Claim C2, amended. A call that returns has closed every file it opened when
  \<^verbatim>\<open>memmap\<close> is false; with \<^verbatim>\<open>memmap=True\<close> every file of the list is still held
  open by the memory map of its cube. The same holds whenever the loop runs to its end,
  also when the call then raises in the sequence constructor. When the loop raises, it
  raises in the round of one file \<open>name\<close>, after the rounds of the files \<open>pre\<close>
  before it have finished: if \<open>name\<close> could not be opened, the error is that of the
  open and the open files are those the rounds of \<open>pre\<close> left; if it was opened,
  extraction or cube construction raised, and \<open>name\<close> is open when the exception
  leaves the reader, on top of what the rounds of \<open>pre\<close> left.
\<close>

theorem files_closed_unless_body_raises:
  assumes "read_iris_sji_level2_fits ev names memmap w = (res, w')"
  shows "(\<forall>r. res = Inr r \<longrightarrow> open_files w' = held memmap (names_of names) @ open_files w) \<and>
     (\<forall>x w1. read_files ev memmap (names_of names) [] None w = (Inr x, w1) \<longrightarrow>
        open_files w' = held memmap (names_of names) @ open_files w) \<and>
     (\<forall>e w1. read_files ev memmap (names_of names) [] None w = (Inl e, w1) \<longrightarrow>
        res = Inl e \<and>
        (\<exists>pre name post x w0. names_of names = pre @ name # post \<and>
           read_files ev memmap pre [] None w = (Inr x, w0) \<and>
           read_file ev memmap name w0 = (Inl e, w') \<and>
           (case fits_files ev name of
              None \<Rightarrow> e = FileNotFoundError name \<and>
                open_files w' = held memmap pre @ open_files w
            | Some f \<Rightarrow> open_files w' = name # held memmap pre @ open_files w)))"
proof -
  let ?fs = "names_of names"
  have after: "open_files w' = held memmap ?fs @ open_files w"
    if "read_files ev memmap ?fs [] None w = (Inr x, w1)" for x w1
  proof -
    obtain cs m where x: "x = (cs, m)" by (cases x)
    from read_files_ok[OF that[unfolded x]]
    have o: "open_files w1 = held memmap ?fs @ open_files w" by blast
    from assms that x have "w' = w1 \<or> (\<exists>m1 r2. IRISMapCubeSequence cs (Some m1) 0 w1 = (r2, w'))"
      unfolding read_iris_unfold
      by (auto split: if_splits list.splits option.splits prod.splits sum.splits)
    then have "w' = w1" by (auto dest: IRISMapCubeSequence_result)
    with o show ?thesis by simp
  qed
  have raised: "res = Inl e \<and>
        (\<exists>pre name post x w0. ?fs = pre @ name # post \<and>
           read_files ev memmap pre [] None w = (Inr x, w0) \<and>
           read_file ev memmap name w0 = (Inl e, w') \<and>
           (case fits_files ev name of
              None \<Rightarrow> e = FileNotFoundError name \<and>
                open_files w' = held memmap pre @ open_files w
            | Some f \<Rightarrow> open_files w' = name # held memmap pre @ open_files w))"
    if rf: "read_files ev memmap ?fs [] None w = (Inl e, w1)" for e w1
  proof -
    from assms rf have r: "res = Inl e" and w1: "w1 = w'"
      unfolding read_iris_unfold by simp_all
    from read_files_raises[OF rf[unfolded w1]] obtain pre name post x w0 where
      d: "?fs = pre @ name # post" "read_files ev memmap pre [] None w = (Inr x, w0)"
      "read_file ev memmap name w0 = (Inl e, w')" by blast
    obtain cs m where x: "x = (cs, m)" by (cases x)
    from read_files_ok[OF d(2)[unfolded x]]
    have o: "open_files w0 = held memmap pre @ open_files w" by blast
    from read_file_raises[OF d(3)] o
    have "case fits_files ev name of
              None \<Rightarrow> e = FileNotFoundError name \<and>
                open_files w' = held memmap pre @ open_files w
            | Some f \<Rightarrow> open_files w' = name # held memmap pre @ open_files w"
      by (auto split: option.splits)
    with r d show ?thesis by blast
  qed
  have ok: "open_files w' = held memmap ?fs @ open_files w" if "res = Inr r" for r
  proof (cases "read_files ev memmap ?fs [] None w")
    case (Pair r1 w1)
    show ?thesis
    proof (cases r1)
      case (Inl e)
      with raised Pair that show ?thesis by auto
    next
      case (Inr x)
      with after Pair show ?thesis by auto
    qed
  qed
  from ok after raised show ?thesis by blast
qed

lemma read_a_returns:
  "\<exists>x w1. read_file example_env mm ''a.fits'' empty_world = (Inr x, w1)"
  by (cases mm) (simp_all add: eval_defs)

lemma loop_leaking:
  "read_files example_env False [''a.fits'', ''broken.fits''] [] None empty_world =
     (Inl (KeyError ''EXPTIMES''), leaking_world)"
  by (simp add: leaking_world_def eval_defs)

lemma loop_short:
  "read_files example_env False [''a.fits'', ''short.fits''] [] None empty_world =
     (Inl (ValueError ''extra coord must have same length as data axis to which it is assigned''),
      short_world)"
  by (simp add: short_world_def eval_defs)

lemma loop_missing:
  "read_files example_env False [''a.fits'', ''missing.fits''] [] None empty_world =
     (Inl (FileNotFoundError ''missing.fits''), missing_world)"
  by (simp add: missing_world_def eval_defs)

lemma loop_memmap_leaking:
  "read_files example_env True [''a.fits'', ''broken.fits''] [] None empty_world =
     (Inl (KeyError ''EXPTIMES''), memmap_leaking_world)"
  by (simp add: memmap_leaking_world_def eval_defs)

lemma loop_mismatch:
  "\<exists>x w1. read_files example_env False [''a.fits'', ''c.fits''] [] None empty_world =
     (Inr x, w1)"
  by (simp add: eval_defs)

lemma two_names:
  "[a, b] = pre @ name # post \<longleftrightarrow>
     pre = [] \<and> name = a \<and> post = [b] \<or> pre = [a] \<and> name = b \<and> post = []"
  by (auto simp: Cons_eq_append_conv)

theorem files_closed_unless_body_raises_witness:
  "read_iris_sji_level2_fits example_env (Str ''a.fits'') False empty_world =
     (Inr (ACube 0), scaled_world) \<and>
   open_files scaled_world = [] \<and>
   read_iris_sji_level2_fits example_env (Str ''a.fits'') True empty_world =
     (Inr (ACube 0), memmap_world) \<and>
   open_files memmap_world = [''a.fits''] \<and>
   read_iris_sji_level2_fits example_env (StrList [''a.fits'', ''broken.fits'']) False empty_world =
     (Inl (KeyError ''EXPTIMES''), leaking_world) \<and>
   open_files leaking_world = [''broken.fits''] \<and>
   read_iris_sji_level2_fits example_env (StrList [''a.fits'', ''short.fits'']) False empty_world =
     (Inl (ValueError ''extra coord must have same length as data axis to which it is assigned''),
      short_world) \<and>
   open_files short_world = [''short.fits''] \<and>
   read_iris_sji_level2_fits example_env (StrList [''a.fits'', ''missing.fits'']) False empty_world =
     (Inl (FileNotFoundError ''missing.fits''), missing_world) \<and>
   open_files missing_world = [] \<and>
   read_iris_sji_level2_fits example_env (StrList [''a.fits'', ''c.fits'']) False empty_world =
     (Inl (ValueError ''Constituent IRISMapCube objects must have same value of OBSID in its meta.''),
      mismatch_world) \<and>
   open_files mismatch_world = [] \<and>
   read_iris_sji_level2_fits example_env (StrList [''a.fits'', ''broken.fits'']) True empty_world =
     (Inl (KeyError ''EXPTIMES''), memmap_leaking_world) \<and>
   open_files memmap_leaking_world = [''broken.fits'', ''a.fits'']"
proof -
  have raised: "case fits_files example_env X of
        None \<Rightarrow> e = FileNotFoundError X \<and> open_files w' = held mm [''a.fits'']
      | Some f \<Rightarrow> open_files w' = X # held mm [''a.fits'']"
    if "read_iris_sji_level2_fits example_env (StrList [''a.fits'', X]) mm empty_world = (res, w')"
      and "read_files example_env mm [''a.fits'', X] [] None empty_world = (Inl e, w')"
    for X e res w' mm
  proof -
    from files_closed_unless_body_raises [OF that(1)] that(2)
    obtain pre name post x w0 where d: "[''a.fits'', X] = pre @ name # post"
      "read_files example_env mm pre [] None empty_world = (Inr x, w0)"
      "read_file example_env mm name w0 = (Inl e, w')"
      "case fits_files example_env name of
         None \<Rightarrow> e = FileNotFoundError name \<and>
           open_files w' = held mm pre @ open_files empty_world
       | Some f \<Rightarrow> open_files w' = name # held mm pre @ open_files empty_world"
      by (auto simp: names_of_def)
    from d(1) consider "pre = []" "name = ''a.fits''" | "pre = [''a.fits'']" "name = X"
      by (auto simp: two_names)
    then show ?thesis
    proof cases
      case 1
      with d(2) have "w0 = empty_world" by (simp add: returnS_def)
      with d(3) 1 read_a_returns [of mm] show ?thesis by auto
    next
      case 2
      with d(4) show ?thesis by (simp add: empty_world_def split: option.splits)
    qed
  qed
  have 1: "read_iris_sji_level2_fits example_env (StrList [''a.fits'', ''broken.fits'']) False
      empty_world = (Inl (KeyError ''EXPTIMES''), leaking_world)"
    by (simp add: leaking_world_def eval_defs)
  have 2: "read_iris_sji_level2_fits example_env (StrList [''a.fits'', ''short.fits'']) False
      empty_world =
      (Inl (ValueError ''extra coord must have same length as data axis to which it is assigned''),
       short_world)"
    by (simp add: short_world_def eval_defs)
  have 3: "read_iris_sji_level2_fits example_env (StrList [''a.fits'', ''missing.fits'']) False
      empty_world = (Inl (FileNotFoundError ''missing.fits''), missing_world)"
    by (simp add: missing_world_def eval_defs)
  have 4: "read_iris_sji_level2_fits example_env (StrList [''a.fits'', ''c.fits'']) False
      empty_world =
      (Inl (ValueError ''Constituent IRISMapCube objects must have same value of OBSID in its meta.''),
       mismatch_world)"
    by (simp add: mismatch_world_def eval_defs)
  have 5: "read_iris_sji_level2_fits example_env (StrList [''a.fits'', ''broken.fits'']) True
      empty_world = (Inl (KeyError ''EXPTIMES''), memmap_leaking_world)"
    by (simp add: memmap_leaking_world_def eval_defs)
  from files_closed_unless_body_raises [OF 4] loop_mismatch
  have "open_files mismatch_world = []"
    by (auto simp: held_def names_of_def empty_world_def)
  moreover from raised [OF 5 loop_memmap_leaking]
  have "open_files memmap_leaking_world = [''broken.fits'', ''a.fits'']"
    by (simp add: example_env_def held_def)
  moreover from files_closed_unless_body_raises [OF read_a_scaled]
  have "open_files scaled_world = []" by (simp add: held_def empty_world_def)
  moreover from files_closed_unless_body_raises [OF read_a_memmap]
  have "open_files memmap_world = [''a.fits'']"
    by (simp add: held_def names_of_def empty_world_def)
  moreover from raised [OF 1 loop_leaking] have "open_files leaking_world = [''broken.fits'']"
    by (simp add: example_env_def held_def)
  moreover from raised [OF 2 loop_short] have "open_files short_world = [''short.fits'']"
    by (simp add: example_env_def held_def)
  moreover from raised [OF 3 loop_missing] have "open_files missing_world = []"
    by (simp add: example_env_def held_def)
  ultimately show ?thesis using read_a_scaled read_a_memmap 1 2 3 4 5 by simp
qed

end
